theory Spec2Isabelle
  imports Main
begin

section \<open>The HTTP-Redirect binding of samlify (binding-redirect.ts)\<close>

text \<open>
  The module builds the redirect URL of a login request, a logout request and a logout
  response. Strings are lists of 8-bit characters, read as the code units U+0000 to
  U+00FF of a JavaScript string. An exception is a value of type \<open>error\<close>, and a
  function that can raise returns \<open>error + 'a\<close>.
\<close>

datatype error = Error string | TypeError string

subsection \<open>Built-in functions of the language\<close>

text \<open>
  \<open>encodeURIComponent\<close> (ECMAScript): the letters, the digits and
  \<open>- _ . ! ~ * ' ( )\<close> stay; every other code unit is written as the octets of its
  UTF-8 encoding, each as \<open>%XX\<close> with upper-case hexadecimal digits. A code unit
  below U+0080 is one octet, one from U+0080 to U+00FF is two.
\<close>

definition uriUnreserved :: "char \<Rightarrow> bool" where
  "uriUnreserved c \<longleftrightarrow>
     c \<in> set ''ABCDEFGHIJKLMNOPQRSTUVWXYZabcdefghijklmnopqrstuvwxyz0123456789-_.!~*()''
     \<or> c = CHR 0x27"

definition hexDigit :: "nat \<Rightarrow> char" where
  "hexDigit n = ''0123456789ABCDEF'' ! n"

definition percentByte :: "nat \<Rightarrow> string" where
  "percentByte b = [CHR ''%'', hexDigit (b div 16), hexDigit (b mod 16)]"

definition encodeChar :: "char \<Rightarrow> string" where
  "encodeChar c =
     (let n = (of_char c :: nat) in
      if uriUnreserved c then [c]
      else if n < 128 then percentByte n
      else percentByte (192 + n div 64) @ percentByte (128 + n mod 64))"

definition encodeURIComponent :: "string \<Rightarrow> string" where
  "encodeURIComponent s = concat (map encodeChar s)"

subsection \<open>The imported modules\<close>

text \<open>
  Modelled from the spec: the table \<open>wording.urlParams\<close> of \<open>./urn\<close> is not among
  the sources. The wire names of the five query parameters are those of section 6 of the
  specification; the two tags of the logout messages are the names of their message
  kinds.
\<close>

definition urlParams_samlRequest :: string where
  "urlParams_samlRequest = ''SAMLRequest''"

definition urlParams_samlResponse :: string where
  "urlParams_samlResponse = ''SAMLResponse''"

definition urlParams_logoutRequest :: string where
  "urlParams_logoutRequest = ''LogoutRequest''"

definition urlParams_logoutResponse :: string where
  "urlParams_logoutResponse = ''LogoutResponse''"

definition urlParams_sigAlg :: string where
  "urlParams_sigAlg = ''SigAlg''"

definition urlParams_signature :: string where
  "urlParams_signature = ''Signature''"

definition urlParams_relayState :: string where
  "urlParams_relayState = ''RelayState''"

text \<open>
  Modelled from the spec: \<open>libsaml.getQueryParamByType\<close> is not among the sources.
  Section 4.1, step 4: an authentication request and a logout request use the request
  parameter name, a logout response uses the response parameter name. The specification
  names no parameter for any other type, which is an error here.
\<close>

definition getQueryParamByType :: "string \<Rightarrow> error + string" where
  "getQueryParamByType type =
     (if type = urlParams_logoutRequest \<or> type = urlParams_samlRequest
        then Inr ''SAMLRequest''
      else if type = urlParams_logoutResponse \<or> type = urlParams_samlResponse
        then Inr ''SAMLResponse''
      else Inl (Error ''undefined parseResult type''))"

text \<open>The keys of \<open>wording.binding\<close>; this module uses \<open>binding.redirect\<close> only.\<close>

datatype binding = redirect | post

text \<open>
  A value of the object handed to the template substitution: a string, a boolean, or
  \<open>undefined\<close> where the property read to fill it does not exist.
\<close>

datatype tagValue = StringValue string | BooleanValue bool | UndefinedValue

text \<open>
  The functions and tables this module imports, taken as parameters: \<open>url.parse\<close>
  followed by \<open>.query\<close> (a string or \<open>null\<close>), \<open>utility\<close>, \<open>libsaml\<close>, the
  table \<open>namespace\<close> and the clock read by \<open>new Date().toISOString()\<close>. The parse
  and the signing function can raise; the object of tag values is an association list in
  the order of its keys.
\<close>

record modules =
  url_parse_query :: "string \<Rightarrow> error + string option"
  utility_deflateString :: "string \<Rightarrow> nat list"
  utility_base64Encode :: "nat list \<Rightarrow> string"
  libsaml_constructMessageSignature ::
    "string \<Rightarrow> string \<Rightarrow> string option \<Rightarrow> bool option \<Rightarrow> string \<Rightarrow> error + string"
  libsaml_replaceTagsByValue :: "string \<Rightarrow> (string \<times> tagValue) list \<Rightarrow> string"
  libsaml_defaultLoginRequestTemplate :: string
  libsaml_defaultLogoutRequestTemplate :: string
  libsaml_defaultLogoutResponseTemplate :: string
  namespace_format :: "string \<Rightarrow> string option"
  namespace_format_emailAddress :: string
  namespace_statusCode_success :: string
  date_toISOString :: string

subsection \<open>Entities\<close>

record EntityMeta =
  getSingleSignOnService :: "binding \<Rightarrow> string"
  getSingleLogoutService :: "binding \<Rightarrow> string"
  getEntityID :: string
  getAssertionConsumerService :: "binding \<Rightarrow> string"
  isAuthnRequestSigned :: bool

text \<open>
  \<open>generateID\<close> returns a fresh identifier at each call: the builders take the number of
  calls made so far and return it updated.

  Modelled from the spec: the declaration of the settings is not among the sources.
  \<open>authnRequestsSigned\<close> is the flag of section 6 of the specification, "whether login
  requests must be signed"; no function of this module reads it.
\<close>

record EntitySetting =
  authnRequestsSigned :: bool
  loginRequestTemplate :: "string option"
  logoutRequestTemplate :: "string option"
  logoutResponseTemplate :: "string option"
  generateID :: "nat \<Rightarrow> string"
  loginNameIDFormat :: string
  logoutNameIDFormat :: string
  allowCreate :: bool
  requestSignatureAlgorithm :: string
  privateKey :: string
  privateKeyPass :: "string option"
  wantLogoutRequestSigned :: bool
  wantLogoutResponseSigned :: bool

record Entity =
  entityMeta :: "EntityMeta option"
  entitySetting :: EntitySetting

record LoginEntity =
  idp :: Entity
  sp :: Entity

record LogoutEntity =
  init :: Entity
  target :: Entity

record User =
  logoutNameID :: string
  sessionIndex :: string

record BindingContext =
  id' :: string
  context' :: string

text \<open>
  The request info is untyped: the extracted logout request is an object whose \<open>id\<close>
  may be missing.
\<close>

record ExtractedLogoutRequest =
  logoutrequest_id :: "string option"

record Extract =
  logoutrequest :: "ExtractedLogoutRequest option"

record RequestInfo =
  extract' :: "Extract option"

subsection \<open>The redirect URL\<close>

definition pvPair :: "string \<Rightarrow> string \<Rightarrow> bool option \<Rightarrow> string" where
  "pvPair param val first =
     (if first = Some True then ''?'' else ''&'') @ param @ ''='' @ val"

definition buildRedirectURL ::
  "modules \<Rightarrow> string \<Rightarrow> string \<Rightarrow> bool \<Rightarrow> string \<Rightarrow> EntitySetting \<Rightarrow> string option
     \<Rightarrow> error + string" where
  "buildRedirectURL m baseUrl type isSigned context setting relayStateOpt =
     (let relayState = (case relayStateOpt of None \<Rightarrow> [] | Some r \<Rightarrow> r)
      in case url_parse_query m baseUrl of
           Inl e \<Rightarrow> Inl e
         | Inr parsedQuery \<Rightarrow>
             let noParams =
                   (length (case parsedQuery of
                              None \<Rightarrow> []
                            | Some q \<Rightarrow> if q \<noteq> [] then q else []) = 0)
             in case getQueryParamByType type of
                  Inl e \<Rightarrow> Inl e
                | Inr queryParam \<Rightarrow>
                    let samlRequest =
                          encodeURIComponent
                            (utility_base64Encode m (utility_deflateString m context));
                        relayState =
                          (if relayState \<noteq> []
                           then pvPair urlParams_relayState (encodeURIComponent relayState) None
                           else relayState)
                    in if isSigned then
                         let sigAlg =
                               pvPair urlParams_sigAlg
                                 (encodeURIComponent (requestSignatureAlgorithm setting)) None;
                             octetString = samlRequest @ sigAlg @ relayState
                         in case libsaml_constructMessageSignature m
                                   (queryParam @ ''='' @ octetString) (privateKey setting)
                                   (privateKeyPass setting) None
                                   (requestSignatureAlgorithm setting) of
                              Inl e \<Rightarrow> Inl e
                            | Inr sig \<Rightarrow>
                                Inr (baseUrl @ pvPair queryParam octetString (Some noParams)
                                     @ pvPair urlParams_signature (encodeURIComponent sig) None)
                       else Inr (baseUrl
                                 @ pvPair queryParam (samlRequest @ relayState)
                                     (Some noParams)))"

subsection \<open>The three builders\<close>

text \<open>
  The test \<open>if (setting.template)\<close>: a template that is absent or the empty string is
  not used.
\<close>

definition customTemplate :: "string option \<Rightarrow> string option" where
  "customTemplate t =
     (case t of None \<Rightarrow> None | Some s \<Rightarrow> if s \<noteq> [] then Some s else None)"

text \<open>The expression \<open>namespace.format[key] || namespace.format.emailAddress\<close>.\<close>

definition nameIDFormat :: "modules \<Rightarrow> string \<Rightarrow> string" where
  "nameIDFormat m key =
     (case namespace_format m key of
        None \<Rightarrow> namespace_format_emailAddress m
      | Some f \<Rightarrow> if f \<noteq> [] then f else namespace_format_emailAddress m)"

text \<open>The object of tag values of the default login request (lines 93 to 100).\<close>

definition loginRequestTagValues ::
  "modules \<Rightarrow> string \<Rightarrow> string \<Rightarrow> EntityMeta \<Rightarrow> EntitySetting \<Rightarrow> (string \<times> tagValue) list" where
  "loginRequestTagValues m ident base metaSp spSetting =
     [(''ID'', StringValue ident),
      (''Destination'', StringValue base),
      (''Issuer'', StringValue (getEntityID metaSp)),
      (''IssueInstant'', StringValue (date_toISOString m)),
      (''NameIDFormat'', StringValue (nameIDFormat m (loginNameIDFormat spSetting))),
      (''AssertionConsumerServiceURL'',
         StringValue (getAssertionConsumerService metaSp redirect)),
      (''EntityID'', StringValue (getEntityID metaSp)),
      (''AllowCreate'', BooleanValue (allowCreate spSetting))]"

definition loginRequestRedirectURL ::
  "modules \<Rightarrow> LoginEntity \<Rightarrow> (string \<Rightarrow> BindingContext) option \<Rightarrow> nat
     \<Rightarrow> (error + BindingContext) \<times> nat" where
  "loginRequestRedirectURL m entity customTagReplacement calls =
     (let spSetting = entitySetting (sp entity) in
      case entityMeta (idp entity) of
        None \<Rightarrow> (Inl (Error ''Missing declaration of metadata''), calls)
      | Some metaIdp \<Rightarrow>
          (case entityMeta (sp entity) of
             None \<Rightarrow> (Inl (Error ''Missing declaration of metadata''), calls)
           | Some metaSp \<Rightarrow>
               let base = getSingleSignOnService metaIdp redirect in
               case (case customTemplate (loginRequestTemplate spSetting) of
                       Some template \<Rightarrow>
                         (case customTagReplacement of
                            None \<Rightarrow> Inl (TypeError ''customTagReplacement is not a function'')
                          | Some f \<Rightarrow>
                              let info = f template
                              in Inr (id' info, context' info, calls))
                     | None \<Rightarrow>
                         let ident = generateID spSetting calls
                         in Inr (ident,
                                 libsaml_replaceTagsByValue m
                                   (libsaml_defaultLoginRequestTemplate m)
                                   (loginRequestTagValues m ident base metaSp spSetting),
                                 Suc calls)) of
                 Inl e \<Rightarrow> (Inl e, calls)
               | Inr (ident, rawSamlRequest, calls') \<Rightarrow>
                   (case buildRedirectURL m base urlParams_samlRequest
                           (isAuthnRequestSigned metaSp) rawSamlRequest spSetting None of
                      Inl e \<Rightarrow> (Inl e, calls')
                    | Inr url \<Rightarrow> (Inr \<lparr>id' = ident, context' = url\<rparr>, calls'))))"

text \<open>The object of tag values of the default logout request (lines 137 to 144).\<close>

definition logoutRequestTagValues ::
  "modules \<Rightarrow> string \<Rightarrow> string \<Rightarrow> EntityMeta \<Rightarrow> EntitySetting \<Rightarrow> User
     \<Rightarrow> (string \<times> tagValue) list" where
  "logoutRequestTagValues m ident base metaInit initSetting user =
     [(''ID'', StringValue ident),
      (''Destination'', StringValue base),
      (''EntityID'', StringValue (getEntityID metaInit)),
      (''Issuer'', StringValue (getEntityID metaInit)),
      (''IssueInstant'', StringValue (date_toISOString m)),
      (''NameIDFormat'', StringValue (nameIDFormat m (logoutNameIDFormat initSetting))),
      (''NameID'', StringValue (logoutNameID user)),
      (''SessionIndex'', StringValue (sessionIndex user))]"

definition logoutRequestRedirectURL ::
  "modules \<Rightarrow> User \<Rightarrow> LogoutEntity \<Rightarrow> string option \<Rightarrow> (string \<Rightarrow> BindingContext) option
     \<Rightarrow> nat \<Rightarrow> (error + BindingContext) \<times> nat" where
  "logoutRequestRedirectURL m user entity relayState customTagReplacement calls =
     (let initSetting = entitySetting (init entity) in
      case entityMeta (init entity) of
        None \<Rightarrow> (Inl (Error ''Missing declaration of metadata''), calls)
      | Some metaInit \<Rightarrow>
          (case entityMeta (target entity) of
             None \<Rightarrow> (Inl (Error ''Missing declaration of metadata''), calls)
           | Some metaTarget \<Rightarrow>
               let base = getSingleLogoutService metaTarget redirect in
               case (case customTemplate (logoutRequestTemplate initSetting) of
                       Some template \<Rightarrow>
                         (case customTagReplacement of
                            None \<Rightarrow> Inl (TypeError ''customTagReplacement is not a function'')
                          | Some f \<Rightarrow>
                              let info = f template
                              in Inr (id' info, context' info, calls))
                     | None \<Rightarrow>
                         let ident = generateID initSetting calls
                         in Inr (ident,
                                 libsaml_replaceTagsByValue m
                                   (libsaml_defaultLogoutRequestTemplate m)
                                   (logoutRequestTagValues m ident base metaInit initSetting user),
                                 Suc calls)) of
                 Inl e \<Rightarrow> (Inl e, calls)
               | Inr (ident, rawSamlRequest, calls') \<Rightarrow>
                   (case buildRedirectURL m base urlParams_logoutRequest
                           (wantLogoutRequestSigned (entitySetting (target entity)))
                           rawSamlRequest initSetting relayState of
                      Inl e \<Rightarrow> (Inl e, calls')
                    | Inr url \<Rightarrow> (Inr \<lparr>id' = ident, context' = url\<rparr>, calls'))))"

text \<open>
  The object \<open>tvalue\<close> of the default logout response (lines 184 to 194): the key
  \<open>InResponseTo\<close> is added last, and only under the test of line 192.
\<close>

definition tvalue ::
  "modules \<Rightarrow> string \<Rightarrow> string \<Rightarrow> EntityMeta \<Rightarrow> RequestInfo option \<Rightarrow> (string \<times> tagValue) list" where
  "tvalue m ident base metaInit requestInfo =
     [(''ID'', StringValue ident),
      (''Destination'', StringValue base),
      (''Issuer'', StringValue (getEntityID metaInit)),
      (''EntityID'', StringValue (getEntityID metaInit)),
      (''IssueInstant'', StringValue (date_toISOString m)),
      (''StatusCode'', StringValue (namespace_statusCode_success m))]
     @ (case requestInfo of
          None \<Rightarrow> []
        | Some info \<Rightarrow>
            (case extract' info of
               None \<Rightarrow> []
             | Some ex \<Rightarrow>
                 (case logoutrequest ex of
                    None \<Rightarrow> []
                  | Some req \<Rightarrow>
                      [(''InResponseTo'',
                        (case logoutrequest_id req of
                           None \<Rightarrow> UndefinedValue
                         | Some ident' \<Rightarrow> StringValue ident'))])))"

definition logoutResponseRedirectURL ::
  "modules \<Rightarrow> RequestInfo option \<Rightarrow> LogoutEntity \<Rightarrow> string option
     \<Rightarrow> (string \<Rightarrow> BindingContext) option \<Rightarrow> nat \<Rightarrow> (error + BindingContext) \<times> nat" where
  "logoutResponseRedirectURL m requestInfo entity relayState customTagReplacement calls =
     (let initSetting = entitySetting (init entity) in
      case entityMeta (init entity) of
        None \<Rightarrow> (Inl (Error ''Missing declaration of metadata''), calls)
      | Some metaInit \<Rightarrow>
          (case entityMeta (target entity) of
             None \<Rightarrow> (Inl (Error ''Missing declaration of metadata''), calls)
           | Some metaTarget \<Rightarrow>
               let base = getSingleLogoutService metaTarget redirect in
               case (case customTemplate (logoutResponseTemplate initSetting) of
                       Some template \<Rightarrow>
                         (case customTagReplacement of
                            None \<Rightarrow> Inl (TypeError ''customTagReplacement is not a function'')
                          | Some f \<Rightarrow>
                              let info = f template
                              in Inr (id' info, context' info, calls))
                     | None \<Rightarrow>
                         let ident = generateID initSetting calls
                         in Inr (ident,
                                 libsaml_replaceTagsByValue m
                                   (libsaml_defaultLogoutResponseTemplate m)
                                   (tvalue m ident base metaInit requestInfo),
                                 Suc calls)) of
                 Inl e \<Rightarrow> (Inl e, calls)
               | Inr (ident, rawSamlResponse, calls') \<Rightarrow>
                   (case buildRedirectURL m base urlParams_logoutResponse
                           (wantLogoutResponseSigned (entitySetting (target entity)))
                           rawSamlResponse initSetting relayState of
                      Inl e \<Rightarrow> (Inl e, calls')
                    | Inr url \<Rightarrow> (Inr \<lparr>id' = ident, context' = url\<rparr>, calls'))))"

subsection \<open>Reading a query string\<close>

text \<open>
  The parameters of a query string, as its receiver reads them: the string is split at
  every \<open>&\<close>, and each piece at its first \<open>=\<close> into a name and a value.
\<close>

fun splitOn :: "char \<Rightarrow> string \<Rightarrow> string list" where
  "splitOn d [] = [[]]"
| "splitOn d (c # cs) =
     (if c = d then [] # splitOn d cs
      else (case splitOn d cs of [] \<Rightarrow> [[c]] | w # ws \<Rightarrow> (c # w) # ws))"

definition params :: "string \<Rightarrow> (string \<times> string) list" where
  "params q =
     map (\<lambda>kv. (takeWhile (\<lambda>c. c \<noteq> CHR ''='') kv, drop 1 (dropWhile (\<lambda>c. c \<noteq> CHR ''='') kv)))
       (splitOn (CHR ''&'') q)"

definition paramNames :: "string \<Rightarrow> string list" where
  "paramNames q = map fst (params q)"

text \<open>
  The query string of a list of parameters: \<open>name=value\<close>, with \<open>&\<close> before every
  parameter but the first.
\<close>

fun query :: "(string \<times> string) list \<Rightarrow> string" where
  "query [] = []"
| "query [(n, v)] = n @ ''='' @ v"
| "query ((n, v) # ps) = n @ ''='' @ v @ ''&'' @ query ps"

text \<open>Where one name stands in a list of names with respect to another.\<close>

fun directlyFollows :: "'a \<Rightarrow> 'a \<Rightarrow> 'a list \<Rightarrow> bool" where
  "directlyFollows a b (x # y # xs) = (x = a \<and> y = b \<or> directlyFollows a b (y # xs))"
| "directlyFollows a b xs = False"

definition comesBefore :: "'a \<Rightarrow> 'a \<Rightarrow> 'a list \<Rightarrow> bool" where
  "comesBefore a b xs \<longleftrightarrow> a \<in> set (takeWhile (\<lambda>x. x \<noteq> b) xs)"

text \<open>What a URL holds after \<open>baseUrl\<close> and the separator that follows it.\<close>

definition appended :: "string \<Rightarrow> string \<Rightarrow> string" where
  "appended baseUrl url = drop (Suc (length baseUrl)) url"

subsection \<open>The inverse of the encoding pipeline\<close>

text \<open>
  \<open>decodeURIComponent\<close> (ECMAScript), on the code units U+0000 to U+00FF: a
  character other than \<open>%\<close> stands for itself; \<open>%XX\<close> is an octet, which is a
  code unit below U+0080 by itself, or with a second escaped octet the UTF-8 encoding of
  a code unit from U+0080 to U+00FF. \<open>None\<close> is the URIError of a malformed
  sequence (and any code point above U+00FF, which no string of this model encodes to).
\<close>

definition hexVal :: "char \<Rightarrow> nat option" where
  "hexVal c =
     (let n = (of_char c :: nat) in
      if 48 \<le> n \<and> n \<le> 57 then Some (n - 48)
      else if 65 \<le> n \<and> n \<le> 70 then Some (n - 55)
      else if 97 \<le> n \<and> n \<le> 102 then Some (n - 87)
      else None)"

definition hexByte :: "char \<Rightarrow> char \<Rightarrow> nat option" where
  "hexByte h l =
     (case hexVal h of
        None \<Rightarrow> None
      | Some a \<Rightarrow> (case hexVal l of None \<Rightarrow> None | Some b \<Rightarrow> Some (16 * a + b)))"

fun decodeURIComponent :: "string \<Rightarrow> string option" where
  "decodeURIComponent [] = Some []"
| "decodeURIComponent [c] = (if c = CHR ''%'' then None else Some [c])"
| "decodeURIComponent [c, d] =
     (if c = CHR ''%'' then None else map_option ((#) c) (decodeURIComponent [d]))"
| "decodeURIComponent (c # h # l # rest) =
     (if c \<noteq> CHR ''%'' then map_option ((#) c) (decodeURIComponent (h # l # rest))
      else case hexByte h l of
        None \<Rightarrow> None
      | Some b \<Rightarrow>
          if b < 128 then map_option ((#) (char_of b)) (decodeURIComponent rest)
          else if b = 194 \<or> b = 195 then
            (case rest of
               p # h2 # l2 # rest2 \<Rightarrow>
                 (if p \<noteq> CHR ''%'' then None
                  else case hexByte h2 l2 of
                    None \<Rightarrow> None
                  | Some b2 \<Rightarrow>
                      if 128 \<le> b2 \<and> b2 < 192
                      then map_option ((#) (char_of ((b - 192) * 64 + (b2 - 128))))
                             (decodeURIComponent rest2)
                      else None)
             | _ \<Rightarrow> None)
          else None)"

text \<open>
  Modelled from the spec: the receiving side is not among the sources. Section 8 names
  \<open>decode\<close> as the exact inverse pipeline of deflate, base64 and URL-encoding: the
  percent-decoding, then the base64 decoding, then the inflation, each of which can
  refuse its input. The base64 decoder and the inflater are parameters, as the encoder
  and the deflater are.
\<close>

definition decode ::
  "(string \<Rightarrow> nat list option) \<Rightarrow> (nat list \<Rightarrow> string option) \<Rightarrow> string \<Rightarrow> string option" where
  "decode base64Decode inflateString payload =
     (case decodeURIComponent payload of
        None \<Rightarrow> None
      | Some b64 \<Rightarrow>
          (case base64Decode b64 of
             None \<Rightarrow> None
           | Some deflated \<Rightarrow> inflateString deflated))"

subsection \<open>Example collaborators\<close>

text \<open>
  Stand-ins for the imported functions, used only where a property is evaluated at a
  concrete input. The parse raises on a host that opens a bracket and does not close
  it, as \<open>url.parse\<close> does on \<open>http://[::1\<close>; otherwise the query of a URL is the
  text after its first \<open>?\<close>, up to a \<open>#\<close>. The deflater writes one stored block,
  which is raw deflate; base64 is that of RFC 4648; the signer returns a fixed signature
  and raises when the key is empty; the template substitution replaces every
  \<open>{Tag}\<close> by the value of the tag, \<open>undefined\<close> by the text \<open>undefined\<close>.
\<close>

definition exampleQuery :: "string \<Rightarrow> error + string option" where
  "exampleQuery u =
     (let host = takeWhile (\<lambda>c. c \<notin> set ''/?#'') (drop 2 (dropWhile (\<lambda>c. c \<noteq> CHR ''/'') u));
          beforeHash = takeWhile (\<lambda>c. c \<noteq> CHR ''#'') u
      in if CHR ''['' \<in> set host \<and> CHR '']'' \<notin> set host then Inl (TypeError ''Invalid URL'')
         else if CHR ''?'' \<in> set beforeHash
         then Inr (Some (drop 1 (dropWhile (\<lambda>c. c \<noteq> CHR ''?'') beforeHash)))
         else Inr None)"

definition storedBlock :: "string \<Rightarrow> nat list" where
  "storedBlock s =
     (let n = length s
      in [1, n mod 256, n div 256, 255 - n mod 256, 255 - n div 256] @ map of_char s)"

definition unstoredBlock :: "nat list \<Rightarrow> string option" where
  "unstoredBlock z =
     (case z of
        h # lo # hi # nlo # nhi # body \<Rightarrow>
          if h = 1 \<and> nlo = 255 - lo \<and> nhi = 255 - hi \<and> length body = lo + 256 * hi
          then Some (map char_of body) else None
      | _ \<Rightarrow> None)"

definition base64Char :: "nat \<Rightarrow> char" where
  "base64Char n =
     ''ABCDEFGHIJKLMNOPQRSTUVWXYZabcdefghijklmnopqrstuvwxyz0123456789+/'' ! n"

fun base64 :: "nat list \<Rightarrow> string" where
  "base64 [] = []"
| "base64 [a] = [base64Char (a div 4), base64Char (a mod 4 * 16), CHR ''='', CHR ''='']"
| "base64 [a, b] =
     [base64Char (a div 4), base64Char (a mod 4 * 16 + b div 16),
      base64Char (b mod 16 * 4), CHR ''='']"
| "base64 (a # b # c # rest) =
     [base64Char (a div 4), base64Char (a mod 4 * 16 + b div 16),
      base64Char (b mod 16 * 4 + c div 64), base64Char (c mod 64)] @ base64 rest"

definition base64Index :: "char \<Rightarrow> nat option" where
  "base64Index c =
     (let n = (of_char c :: nat) in
      if 65 \<le> n \<and> n \<le> 90 then Some (n - 65)
      else if 97 \<le> n \<and> n \<le> 122 then Some (n - 71)
      else if 48 \<le> n \<and> n \<le> 57 then Some (n + 4)
      else if n = 43 then Some 62
      else if n = 47 then Some 63
      else None)"

fun unbase64 :: "string \<Rightarrow> nat list option" where
  "unbase64 [] = Some []"
| "unbase64 (a # b # c # d # rest) =
     (case (base64Index a, base64Index b) of
        (Some x, Some y) \<Rightarrow>
          if c = CHR ''='' \<and> d = CHR ''='' \<and> rest = [] then Some [x * 4 + y div 16]
          else (case base64Index c of
                  None \<Rightarrow> None
                | Some z \<Rightarrow>
                    if d = CHR ''='' \<and> rest = []
                    then Some [x * 4 + y div 16, y mod 16 * 16 + z div 4]
                    else (case base64Index d of
                            None \<Rightarrow> None
                          | Some w \<Rightarrow>
                              map_option
                                ((@) [x * 4 + y div 16, y mod 16 * 16 + z div 4, z mod 4 * 64 + w])
                                (unbase64 rest)))
      | _ \<Rightarrow> None)"
| "unbase64 _ = None"

definition exampleSign ::
  "string \<Rightarrow> string \<Rightarrow> string option \<Rightarrow> bool option \<Rightarrow> string \<Rightarrow> error + string" where
  "exampleSign octets key pass isBase64 alg =
     (if key = [] then Inl (Error ''no private key'') else Inr ''c2ln+/8='')"

function replaceAll :: "string \<Rightarrow> string \<Rightarrow> string \<Rightarrow> string" where
  "replaceAll pat v [] = []"
| "replaceAll pat v (c # cs) =
     (if pat \<noteq> [] \<and> take (length pat) (c # cs) = pat
      then v @ replaceAll pat v (drop (length pat) (c # cs))
      else c # replaceAll pat v cs)"
  by pat_completeness auto
termination
  by (relation "measure (\<lambda>(pat, v, s). length s)") auto

definition tagText :: "tagValue \<Rightarrow> string" where
  "tagText v =
     (case v of
        StringValue s \<Rightarrow> s
      | BooleanValue b \<Rightarrow> if b then ''true'' else ''false''
      | UndefinedValue \<Rightarrow> ''undefined'')"

definition exampleReplaceTags :: "string \<Rightarrow> (string \<times> tagValue) list \<Rightarrow> string" where
  "exampleReplaceTags rawXML tagValues =
     fold (\<lambda>(t, v) xml. replaceAll (''{'' @ t @ ''}'') (tagText v) xml) tagValues rawXML"

definition exampleModules :: modules where
  "exampleModules =
     \<lparr>url_parse_query = exampleQuery,
      utility_deflateString = storedBlock,
      utility_base64Encode = base64,
      libsaml_constructMessageSignature = exampleSign,
      libsaml_replaceTagsByValue = exampleReplaceTags,
      libsaml_defaultLoginRequestTemplate = ''<AuthnRequest ID={ID} Destination={Destination}>'',
      libsaml_defaultLogoutRequestTemplate = ''<LogoutRequest ID={ID} NameID={NameID}>'',
      libsaml_defaultLogoutResponseTemplate = ''<LogoutResponse ID={ID} InResponseTo={InResponseTo}>'',
      namespace_format = map_of [(''emailAddress'', ''urn:oasis:names:tc:SAML:1.1:nameid-format:emailAddress'')],
      namespace_format_emailAddress = ''urn:oasis:names:tc:SAML:1.1:nameid-format:emailAddress'',
      namespace_statusCode_success = ''urn:oasis:names:tc:SAML:2.0:status:Success'',
      date_toISOString = ''2017-03-01T12:00:00.000Z''\<rparr>"

definition exampleSetting :: EntitySetting where
  "exampleSetting =
     \<lparr>authnRequestsSigned = True,
      loginRequestTemplate = None,
      logoutRequestTemplate = None,
      logoutResponseTemplate = None,
      generateID = (\<lambda>n. ''_id'' @ replicate n (CHR ''x'')),
      loginNameIDFormat = ''emailAddress'',
      logoutNameIDFormat = ''emailAddress'',
      allowCreate = False,
      requestSignatureAlgorithm = ''http://www.w3.org/2001/04/xmldsig-more#rsa-sha256'',
      privateKey = ''key'',
      privateKeyPass = None,
      wantLogoutRequestSigned = True,
      wantLogoutResponseSigned = False\<rparr>"

definition exampleMeta :: "string \<Rightarrow> string \<Rightarrow> bool \<Rightarrow> EntityMeta" where
  "exampleMeta entityID endpoint signed =
     \<lparr>getSingleSignOnService = (\<lambda>b. endpoint),
      getSingleLogoutService = (\<lambda>b. endpoint),
      getEntityID = entityID,
      getAssertionConsumerService = (\<lambda>b. endpoint),
      isAuthnRequestSigned = signed\<rparr>"

definition exampleUser :: User where
  "exampleUser = \<lparr>logoutNameID = ''user@sp.example'', sessionIndex = ''_session1''\<rparr>"

definition exampleLogin :: "bool \<Rightarrow> LoginEntity" where
  "exampleLogin signed =
     \<lparr>idp = \<lparr>entityMeta = Some (exampleMeta ''https://idp.example/metadata''
                                 ''https://idp.example/sso'' False),
              entitySetting = exampleSetting\<rparr>,
      sp = \<lparr>entityMeta = Some (exampleMeta ''https://sp.example/metadata''
                                ''https://sp.example/acs'' signed),
             entitySetting = exampleSetting\<rparr>\<rparr>"

definition exampleLogout :: "bool \<Rightarrow> LogoutEntity" where
  "exampleLogout signed =
     \<lparr>init = \<lparr>entityMeta = Some (exampleMeta ''https://sp.example/metadata''
                                  ''https://sp.example/slo'' False),
               entitySetting = exampleSetting\<rparr>,
      target = \<lparr>entityMeta = Some (exampleMeta ''https://idp.example/metadata''
                                    ''https://idp.example/slo'' False),
                 entitySetting = exampleSetting\<lparr>wantLogoutRequestSigned := signed,
                                                 wantLogoutResponseSigned := signed\<rparr>\<rparr>\<rparr>"

section \<open>Properties\<close>

subsection \<open>The alphabet of an encoded component\<close>

lemma hexDigit_in: "n < 16 \<Longrightarrow> hexDigit n \<in> set ''0123456789ABCDEF''"
  unfolding hexDigit_def by (rule nth_mem) simp

lemma percentByte_chars:
  assumes "b < 256" and "c \<in> set (percentByte b)"
  shows "c \<in> set ''%0123456789ABCDEF''"
proof -
  have "b div 16 < 16" using assms(1) by simp
  then have h: "hexDigit (b div 16) \<in> set ''0123456789ABCDEF''" by (rule hexDigit_in)
  have "b mod 16 < 16" by simp
  then have l: "hexDigit (b mod 16) \<in> set ''0123456789ABCDEF''" by (rule hexDigit_in)
  from assms(2) have "c = CHR ''%'' \<or> c = hexDigit (b div 16) \<or> c = hexDigit (b mod 16)"
    by (simp add: percentByte_def)
  with h l show ?thesis by auto
qed

lemma encodeChar_chars:
  assumes "c \<in> set (encodeChar x)"
  shows "uriUnreserved c \<or> c \<in> set ''%0123456789ABCDEF''"
proof (cases "uriUnreserved x")
  case True
  with assms show ?thesis by (simp add: encodeChar_def)
next
  case False
  show ?thesis
  proof (cases "(of_char x :: nat) < 128")
    case True
    with False assms have "c \<in> set (percentByte (of_char x))"
      by (simp add: encodeChar_def)
    then have "c \<in> set ''%0123456789ABCDEF''"
      by (rule percentByte_chars [rotated]) simp
    then show ?thesis ..
  next
    case big: False
    have n: "(of_char x :: nat) < 256" by simp
    from False big assms have
      "c \<in> set (percentByte (192 + of_char x div 64)) \<or> c \<in> set (percentByte (128 + of_char x mod 64))"
      by (simp add: encodeChar_def Let_def)
    moreover have "192 + (of_char x :: nat) div 64 < 256"
      using less_mult_imp_div_less [of "of_char x" 4 64] n by simp
    moreover have "128 + (of_char x :: nat) mod 64 < 256"
      using mod_less_divisor [of 64 "of_char x"] by simp
    ultimately have "c \<in> set ''%0123456789ABCDEF''"
      using percentByte_chars by blast
    then show ?thesis ..
  qed
qed

lemma encodeURIComponent_chars:
  "c \<in> set (encodeURIComponent s) \<Longrightarrow> uriUnreserved c \<or> c \<in> set ''%0123456789ABCDEF''"
  by (auto simp: encodeURIComponent_def dest: encodeChar_chars)

lemma encodeURIComponent_no_delimiter:
  "CHR ''&'' \<notin> set (encodeURIComponent s)"
  "CHR ''='' \<notin> set (encodeURIComponent s)"
  "CHR ''?'' \<notin> set (encodeURIComponent s)"
  using encodeURIComponent_chars [of _ s] by (auto simp: uriUnreserved_def)

subsection \<open>The parameters of a composed query\<close>

lemma splitOn_no_sep: "d \<notin> set a \<Longrightarrow> splitOn d a = [a]"
  by (induction a) auto

lemma splitOn_append: "d \<notin> set a \<Longrightarrow> splitOn d (a @ d # b) = a # splitOn d b"
  by (induction a) auto

lemma name_value_split:
  assumes "CHR ''='' \<notin> set n"
  shows "takeWhile (\<lambda>c. c \<noteq> CHR ''='') (n @ CHR ''='' # v) = n"
    and "drop 1 (dropWhile (\<lambda>c. c \<noteq> CHR ''='') (n @ CHR ''='' # v)) = v"
  using assms by (induction n) auto

lemma params_last:
  assumes "CHR ''='' \<notin> set n" and "CHR ''&'' \<notin> set n" and "CHR ''&'' \<notin> set v"
  shows "params (n @ CHR ''='' # v) = [(n, v)]"
proof -
  have "CHR ''&'' \<notin> set (n @ CHR ''='' # v)" using assms by simp
  then have "splitOn (CHR ''&'') (n @ CHR ''='' # v) = [n @ CHR ''='' # v]"
    by (rule splitOn_no_sep)
  then show ?thesis
    using name_value_split [OF assms(1)] by (simp add: params_def)
qed

lemma params_more:
  assumes "CHR ''='' \<notin> set n" and "CHR ''&'' \<notin> set n" and "CHR ''&'' \<notin> set v"
  shows "params (n @ CHR ''='' # v @ CHR ''&'' # rest) = (n, v) # params rest"
proof -
  have "CHR ''&'' \<notin> set (n @ CHR ''='' # v)" using assms by simp
  then have "splitOn (CHR ''&'') ((n @ CHR ''='' # v) @ CHR ''&'' # rest)
               = (n @ CHR ''='' # v) # splitOn (CHR ''&'') rest"
    by (rule splitOn_append)
  then show ?thesis
    using name_value_split [OF assms(1)] by (simp add: params_def)
qed

lemma getQueryParamByType_cases:
  assumes "getQueryParamByType type = Inr p"
  shows "p = ''SAMLRequest'' \<or> p = ''SAMLResponse''"
  using assms by (auto simp: getQueryParamByType_def split: if_splits)

lemma buildRedirectURL_raises:
  assumes "url_parse_query m baseUrl = Inl e"
  shows "buildRedirectURL m baseUrl type isSigned context setting relayState = Inl e"
  using assms by (simp add: buildRedirectURL_def)

lemma buildRedirectURL_unsigned:
  assumes "getQueryParamByType type = Inr p" and "url_parse_query m baseUrl = Inr parsed"
  shows "buildRedirectURL m baseUrl type False context setting relayState =
           Inr (baseUrl
                @ (if (case parsed of None \<Rightarrow> True | Some q \<Rightarrow> q = [])
                   then ''?'' else ''&'')
                @ p @ ''=''
                @ encodeURIComponent (utility_base64Encode m (utility_deflateString m context))
                @ (case relayState of
                     None \<Rightarrow> []
                   | Some r \<Rightarrow> if r = [] then [] else ''&RelayState='' @ encodeURIComponent r))"
  using assms
  by (simp add: buildRedirectURL_def pvPair_def urlParams_relayState_def Let_def
           split: option.splits)

lemma buildRedirectURL_signed:
  assumes "getQueryParamByType type = Inr p" and "url_parse_query m baseUrl = Inr parsed"
  shows "buildRedirectURL m baseUrl type True context setting relayState =
           (case libsaml_constructMessageSignature m
                   (p @ ''=''
                    @ encodeURIComponent (utility_base64Encode m (utility_deflateString m context))
                    @ ''&SigAlg='' @ encodeURIComponent (requestSignatureAlgorithm setting)
                    @ (case relayState of
                         None \<Rightarrow> []
                       | Some r \<Rightarrow> if r = [] then [] else ''&RelayState='' @ encodeURIComponent r))
                   (privateKey setting) (privateKeyPass setting) None
                   (requestSignatureAlgorithm setting) of
              Inl e \<Rightarrow> Inl e
            | Inr sig \<Rightarrow>
                Inr (baseUrl
                     @ (if (case parsed of None \<Rightarrow> True | Some q \<Rightarrow> q = [])
                        then ''?'' else ''&'')
                     @ p @ ''=''
                     @ encodeURIComponent (utility_base64Encode m (utility_deflateString m context))
                     @ ''&SigAlg='' @ encodeURIComponent (requestSignatureAlgorithm setting)
                     @ (case relayState of
                          None \<Rightarrow> []
                        | Some r \<Rightarrow> if r = [] then [] else ''&RelayState='' @ encodeURIComponent r)
                     @ ''&Signature='' @ encodeURIComponent sig))"
  using assms
  by (simp add: buildRedirectURL_def pvPair_def urlParams_relayState_def urlParams_sigAlg_def
           urlParams_signature_def Let_def
           split: option.splits sum.splits)

subsection \<open>Percent-decoding inverts percent-encoding\<close>

lemma decode_plain:
  "c \<noteq> CHR ''%'' \<Longrightarrow> decodeURIComponent (c # t) = map_option ((#) c) (decodeURIComponent t)"
proof (cases t)
  case Nil
  then show "c \<noteq> CHR ''%'' \<Longrightarrow> ?thesis" by simp
next
  case (Cons d t')
  then show "c \<noteq> CHR ''%'' \<Longrightarrow> ?thesis" by (cases t') simp_all
qed

lemma below_16:
  "n < 16 \<Longrightarrow> n \<in> {0, 1, 2, 3, 4, 5, 6, 7, 8, 9, 10, 11, 12, 13, 14, 15::nat}"
  by simp arith

lemma hexVal_hexDigit: "n < 16 \<Longrightarrow> hexVal (hexDigit n) = Some n"
  by (drule below_16) (auto simp: hexDigit_def hexVal_def)

lemma hexByte_percent:
  assumes "b < 256"
  shows "hexByte (hexDigit (b div 16)) (hexDigit (b mod 16)) = Some b"
proof -
  have "b div 16 < 16" using less_mult_imp_div_less [of b 16 16] assms by simp
  then have "hexVal (hexDigit (b div 16)) = Some (b div 16)" by (rule hexVal_hexDigit)
  moreover have "hexVal (hexDigit (b mod 16)) = Some (b mod 16)" by (rule hexVal_hexDigit) simp
  ultimately show ?thesis by (simp add: hexByte_def)
qed

lemma decode_percent_ascii:
  assumes "b < 128"
  shows "decodeURIComponent (percentByte b @ t) = map_option ((#) (char_of b)) (decodeURIComponent t)"
proof -
  have "hexByte (hexDigit (b div 16)) (hexDigit (b mod 16)) = Some b"
    using assms by (intro hexByte_percent) simp
  then show ?thesis using assms by (simp add: percentByte_def)
qed

lemma decode_percent_two:
  assumes "128 \<le> n" and "n < 256"
  shows "decodeURIComponent (percentByte (192 + n div 64) @ percentByte (128 + n mod 64) @ t)
           = map_option ((#) (char_of n)) (decodeURIComponent t)"
proof -
  let ?lead = "192 + n div 64" and ?cont = "128 + n mod 64"
  have d: "n div 64 = 2 \<or> n div 64 = 3"
  proof -
    have "n div 64 < 4" using less_mult_imp_div_less [of n 4 64] assms by simp
    moreover have "2 \<le> n div 64" using div_le_mono [OF assms(1), of 64] by simp
    ultimately show ?thesis by arith
  qed
  have m: "n mod 64 < 64" by simp
  have lead: "hexByte (hexDigit (?lead div 16)) (hexDigit (?lead mod 16)) = Some ?lead"
    using d by (intro hexByte_percent) auto
  have cont: "hexByte (hexDigit (?cont div 16)) (hexDigit (?cont mod 16)) = Some ?cont"
    using m by (intro hexByte_percent) simp
  have val: "(?lead - 192) * 64 + (?cont - 128) = n" by simp
  have range: "\<not> ?lead < 128" "?lead = 194 \<or> ?lead = 195" "128 \<le> ?cont" "?cont < 192"
    using d m by auto
  show ?thesis
    unfolding percentByte_def
    by (simp only: append.simps decodeURIComponent.simps lead cont val range
          list.case option.case if_True if_False simp_thms)
qed

lemma uriUnreserved_not_percent: "uriUnreserved c \<Longrightarrow> c \<noteq> CHR ''%''"
  by (auto simp: uriUnreserved_def)

lemma decode_encodeChar:
  "decodeURIComponent (encodeChar c @ t) = map_option ((#) c) (decodeURIComponent t)"
proof (cases "uriUnreserved c")
  case True
  then show ?thesis
    by (simp add: encodeChar_def decode_plain uriUnreserved_not_percent)
next
  case False
  show ?thesis
  proof (cases "(of_char c :: nat) < 128")
    case True
    with False decode_percent_ascii [OF True, of t] show ?thesis
      by (simp add: encodeChar_def)
  next
    case big: False
    have "(of_char c :: nat) < 256" by simp
    with big have
      "decodeURIComponent (percentByte (192 + of_char c div 64)
                           @ percentByte (128 + of_char c mod 64) @ t)
         = map_option ((#) (char_of (of_char c :: nat))) (decodeURIComponent t)"
      by (intro decode_percent_two) simp_all
    with False big show ?thesis
      by (simp add: encodeChar_def Let_def)
  qed
qed

lemma decode_encode_append:
  "decodeURIComponent (encodeURIComponent s @ t) = map_option ((@) s) (decodeURIComponent t)"
proof (induction s)
  case Nil
  show ?case by (simp add: encodeURIComponent_def option.map_ident)
next
  case (Cons c s)
  have "decodeURIComponent (encodeURIComponent (c # s) @ t)
          = decodeURIComponent (encodeChar c @ (encodeURIComponent s @ t))"
    by (simp add: encodeURIComponent_def)
  also have "\<dots> = map_option ((#) c) (decodeURIComponent (encodeURIComponent s @ t))"
    by (rule decode_encodeChar)
  also have "\<dots> = map_option ((@) (c # s)) (decodeURIComponent t)"
    by (cases "decodeURIComponent t") (simp_all add: Cons.IH)
  finally show ?case .
qed

lemma decodeURIComponent_encodeURIComponent:
  "decodeURIComponent (encodeURIComponent s) = Some s"
  using decode_encode_append [of s "[]"] by simp

subsection \<open>The shape of a built URL\<close>

lemma params_query:
  assumes "ps \<noteq> []"
    and "\<forall>(n, v) \<in> set ps. CHR ''='' \<notin> set n \<and> CHR ''&'' \<notin> set n \<and> CHR ''&'' \<notin> set v"
  shows "params (query ps) = ps"
  using assms
proof (induction ps rule: query.induct)
  case 1
  then show ?case by simp
next
  case (2 n v)
  then show ?case using params_last [of n v] by simp
next
  case (3 n v p ps)
  then have "params (query (p # ps)) = p # ps" by simp
  moreover from 3 have "params (n @ CHR ''='' # v @ CHR ''&'' # query (p # ps)) = (n, v) # params (query (p # ps))"
    by (intro params_more) auto
  ultimately show ?case by simp
qed

lemma appended_append: "appended baseUrl (baseUrl @ c # rest) = rest"
  by (simp add: appended_def)

lemma buildRedirectURL_query:
  assumes "getQueryParamByType type = Inr p" and "url_parse_query m baseUrl = Inr parsed"
  shows "buildRedirectURL m baseUrl type isSigned context setting relayState =
           (let sep = (case parsed of Some (c # q) \<Rightarrow> CHR ''&'' | _ \<Rightarrow> CHR ''?'');
                payload = encodeURIComponent (utility_base64Encode m (utility_deflateString m context));
                relay = (case relayState of
                           None \<Rightarrow> []
                         | Some r \<Rightarrow> if r = [] then [] else [(''RelayState'', encodeURIComponent r)]);
                signed = [(p, payload),
                          (''SigAlg'', encodeURIComponent (requestSignatureAlgorithm setting))] @ relay
            in if isSigned then
                 (case libsaml_constructMessageSignature m (query signed) (privateKey setting)
                         (privateKeyPass setting) None (requestSignatureAlgorithm setting) of
                    Inl e \<Rightarrow> Inl e
                  | Inr sig \<Rightarrow>
                      Inr (baseUrl @ sep # query (signed @ [(''Signature'', encodeURIComponent sig)])))
               else Inr (baseUrl @ sep # query ((p, payload) # relay)))"
proof (cases isSigned)
  case True
  then show ?thesis
    by (simp add: buildRedirectURL_signed [OF assms] Let_def
          split: option.splits sum.splits list.splits)
next
  case False
  then show ?thesis
    by (simp add: buildRedirectURL_unsigned [OF assms] Let_def
          split: option.splits list.splits)
qed

lemma query_no_mark:
  assumes "\<forall>(n, v) \<in> set ps. CHR ''?'' \<notin> set n \<and> CHR ''?'' \<notin> set v"
  shows "CHR ''?'' \<notin> set (query ps)"
  using assms by (induction ps rule: query.induct) auto

lemma url_of_query:
  assumes "url = baseUrl @ sep # query ps" and "ps \<noteq> []"
    and "\<forall>(n, v) \<in> set ps. CHR ''='' \<notin> set n \<and> CHR ''&'' \<notin> set n \<and> CHR ''&'' \<notin> set v"
  shows "params (appended baseUrl url) = ps"
  using params_query [OF assms(2,3)] by (simp add: assms(1) appended_append)

lemma queryParam_clean:
  assumes "getQueryParamByType type = Inr p"
  shows "CHR ''='' \<notin> set p" "CHR ''&'' \<notin> set p" "CHR ''?'' \<notin> set p"
    "p \<noteq> ''SigAlg''" "p \<noteq> ''RelayState''" "p \<noteq> ''Signature''"
  using getQueryParamByType_cases [OF assms] by auto

lemma buildRedirectURL_params:
  assumes ok: "buildRedirectURL m baseUrl type isSigned context setting relayState = Inr url"
    and p: "getQueryParamByType type = Inr p"
    and parse: "url_parse_query m baseUrl = Inr parsed"
  shows "\<exists>ps. url = baseUrl
                   @ (case parsed of Some (c # q) \<Rightarrow> CHR ''&'' | _ \<Rightarrow> CHR ''?'')
                   # query ps
              \<and> params (appended baseUrl url) = ps
              \<and> CHR ''?'' \<notin> set (query ps)
              \<and> map fst ps =
                    p # (if isSigned then [''SigAlg''] else [])
                    @ (case relayState of
                         None \<Rightarrow> [] | Some r \<Rightarrow> if r = [] then [] else [''RelayState''])
                    @ (if isSigned then [''Signature''] else [])
              \<and> map_of ps p =
                    Some (encodeURIComponent
                            (utility_base64Encode m (utility_deflateString m context)))
              \<and> map_of ps ''RelayState'' =
                    (case relayState of
                       None \<Rightarrow> None
                     | Some r \<Rightarrow> if r = [] then None else Some (encodeURIComponent r))"
proof -
  define sep where
    "sep = (case parsed of Some (c # q) \<Rightarrow> CHR ''&'' | _ \<Rightarrow> CHR ''?'')"
  define payload where
    "payload = encodeURIComponent (utility_base64Encode m (utility_deflateString m context))"
  define relay where
    "relay = (case relayState of
                None \<Rightarrow> []
              | Some r \<Rightarrow> if r = [] then [] else [(''RelayState'', encodeURIComponent r)])"
  define alg where
    "alg = [(''SigAlg'', encodeURIComponent (requestSignatureAlgorithm setting))]"
  note pc = queryParam_clean [OF p]
  have relay_cases: "relay = [] \<or> (\<exists>r. relay = [(''RelayState'', encodeURIComponent r)])"
    by (auto simp: relay_def split: option.splits)
  have relay_names:
    "map fst relay = (case relayState of
                        None \<Rightarrow> [] | Some r \<Rightarrow> if r = [] then [] else [''RelayState''])"
    by (simp add: relay_def split: option.splits)
  have relay_value:
    "map_of relay ''RelayState'' =
       (case relayState of
          None \<Rightarrow> None
        | Some r \<Rightarrow> if r = [] then None else Some (encodeURIComponent r))"
    by (simp add: relay_def split: option.splits)
  have q: "buildRedirectURL m baseUrl type isSigned context setting relayState =
             (if isSigned then
                (case libsaml_constructMessageSignature m (query ((p, payload) # alg @ relay))
                        (privateKey setting) (privateKeyPass setting) None
                        (requestSignatureAlgorithm setting) of
                   Inl e \<Rightarrow> Inl e
                 | Inr sig \<Rightarrow>
                     Inr (baseUrl @ sep
                          # query ((p, payload) # alg @ relay
                                   @ [(''Signature'', encodeURIComponent sig)])))
              else Inr (baseUrl @ sep # query ((p, payload) # relay)))"
    unfolding buildRedirectURL_query [OF p parse] sep_def payload_def relay_def alg_def Let_def
    by (simp split: sum.splits)
  have "\<exists>sigs. url = baseUrl @ sep # query ((p, payload) # (if isSigned then alg else []) @ relay @ sigs)
          \<and> (isSigned \<longrightarrow> (\<exists>sig. sigs = [(''Signature'', encodeURIComponent sig)]))
          \<and> (\<not> isSigned \<longrightarrow> sigs = [])"
  proof (cases isSigned)
    case True
    define answer where
      "answer = libsaml_constructMessageSignature m (query ((p, payload) # alg @ relay))
                  (privateKey setting) (privateKeyPass setting) None
                  (requestSignatureAlgorithm setting)"
    from ok q True have
      "(case answer of
          Inl e \<Rightarrow> Inl e
        | Inr sig \<Rightarrow>
            Inr (baseUrl @ sep
                 # query ((p, payload) # alg @ relay @ [(''Signature'', encodeURIComponent sig)])))
       = Inr url"
      by (simp add: answer_def)
    then obtain sig where
      "url = baseUrl @ sep
             # query ((p, payload) # alg @ relay @ [(''Signature'', encodeURIComponent sig)])"
      by (cases answer) auto
    with True show ?thesis by auto
  next
    case False
    with ok q have "url = baseUrl @ sep # query ((p, payload) # relay)"
      by simp
    with False show ?thesis by simp
  qed
  then obtain sigs where
    url: "url = baseUrl @ sep # query ((p, payload) # (if isSigned then alg else []) @ relay @ sigs)"
    and signed: "isSigned \<Longrightarrow> \<exists>sig. sigs = [(''Signature'', encodeURIComponent sig)]"
    and unsigned: "\<not> isSigned \<Longrightarrow> sigs = []"
    by blast
  define ps where "ps = (p, payload) # (if isSigned then alg else []) @ relay @ sigs"
  have sigs_cases: "sigs = [] \<or> (\<exists>sig. sigs = [(''Signature'', encodeURIComponent sig)])"
    using signed unsigned by blast
  have clean:
    "\<forall>(n, v) \<in> set ps. CHR ''='' \<notin> set n \<and> CHR ''&'' \<notin> set n \<and> CHR ''&'' \<notin> set v"
    using pc relay_cases sigs_cases
    by (auto simp: ps_def alg_def payload_def encodeURIComponent_no_delimiter)
  have nomark: "\<forall>(n, v) \<in> set ps. CHR ''?'' \<notin> set n \<and> CHR ''?'' \<notin> set v"
    using pc relay_cases sigs_cases
    by (auto simp: ps_def alg_def payload_def encodeURIComponent_no_delimiter)
  have a: "url = baseUrl @ sep # query ps"
    using url by (simp add: ps_def)
  have b: "params (appended baseUrl url) = ps"
    using a _ clean by (rule url_of_query) (simp add: ps_def)
  have c: "CHR ''?'' \<notin> set (query ps)"
    using nomark by (rule query_no_mark)
  have d: "map fst ps =
             p # (if isSigned then [''SigAlg''] else [])
             @ (case relayState of
                  None \<Rightarrow> [] | Some r \<Rightarrow> if r = [] then [] else [''RelayState''])
             @ (if isSigned then [''Signature''] else [])"
    using signed unsigned by (auto simp: ps_def alg_def relay_names)
  have e: "map_of ps p = Some payload"
    by (simp add: ps_def)
  have "map_of ps ''RelayState'' = map_of relay ''RelayState''"
    using pc sigs_cases relay_cases by (auto simp: ps_def alg_def)
  then have f: "map_of ps ''RelayState'' =
             (case relayState of
                None \<Rightarrow> None
              | Some r \<Rightarrow> if r = [] then None else Some (encodeURIComponent r))"
    by (simp add: relay_value)
  from a b c d e f show ?thesis
    unfolding sep_def payload_def by (intro exI [of _ ps] conjI)
qed

lemma buildRedirectURL_queryParam:
  assumes "buildRedirectURL m baseUrl type isSigned context setting relayState = Inr url"
  obtains p parsed where "getQueryParamByType type = Inr p"
    and "url_parse_query m baseUrl = Inr parsed"
  using assms
  by (cases "url_parse_query m baseUrl"; cases "getQueryParamByType type")
     (simp_all add: buildRedirectURL_def Let_def)

lemma paramNames_appended:
  assumes "buildRedirectURL m baseUrl type isSigned context setting relayState = Inr url"
    and "getQueryParamByType type = Inr p"
  shows "paramNames (appended baseUrl url) =
           p # (if isSigned then [''SigAlg''] else [])
           @ (case relayState of
                None \<Rightarrow> [] | Some r \<Rightarrow> if r = [] then [] else [''RelayState''])
           @ (if isSigned then [''Signature''] else [])"
    and "map_of (params (appended baseUrl url)) p =
           Some (encodeURIComponent (utility_base64Encode m (utility_deflateString m context)))"
    and "map_of (params (appended baseUrl url)) ''RelayState'' =
           (case relayState of
              None \<Rightarrow> None
            | Some r \<Rightarrow> if r = [] then None else Some (encodeURIComponent r))"
proof -
  from assms(1) obtain parsed where parse: "url_parse_query m baseUrl = Inr parsed"
    by (rule buildRedirectURL_queryParam)
  from buildRedirectURL_params [OF assms parse] obtain ps where all:
    "url = baseUrl
           @ (case parsed of Some (c # q) \<Rightarrow> CHR ''&'' | _ \<Rightarrow> CHR ''?'')
           # query ps
     \<and> params (appended baseUrl url) = ps
     \<and> CHR ''?'' \<notin> set (query ps)
     \<and> map fst ps =
           p # (if isSigned then [''SigAlg''] else [])
           @ (case relayState of
                None \<Rightarrow> [] | Some r \<Rightarrow> if r = [] then [] else [''RelayState''])
           @ (if isSigned then [''Signature''] else [])
     \<and> map_of ps p =
           Some (encodeURIComponent
                   (utility_base64Encode m (utility_deflateString m context)))
     \<and> map_of ps ''RelayState'' =
           (case relayState of
              None \<Rightarrow> None
            | Some r \<Rightarrow> if r = [] then None else Some (encodeURIComponent r))" ..
  note ps = all [THEN conjunct2, THEN conjunct1]
    and names = all [THEN conjunct2, THEN conjunct2, THEN conjunct2, THEN conjunct1]
    and payload = all [THEN conjunct2, THEN conjunct2, THEN conjunct2, THEN conjunct2,
                       THEN conjunct1]
    and relay = all [THEN conjunct2, THEN conjunct2, THEN conjunct2, THEN conjunct2,
                     THEN conjunct2]
  show "paramNames (appended baseUrl url) =
           p # (if isSigned then [''SigAlg''] else [])
           @ (case relayState of
                None \<Rightarrow> [] | Some r \<Rightarrow> if r = [] then [] else [''RelayState''])
           @ (if isSigned then [''Signature''] else [])"
    unfolding paramNames_def ps by (rule names)
  show "map_of (params (appended baseUrl url)) p =
           Some (encodeURIComponent (utility_base64Encode m (utility_deflateString m context)))"
    unfolding ps by (rule payload)
  show "map_of (params (appended baseUrl url)) ''RelayState'' =
           (case relayState of
              None \<Rightarrow> None
            | Some r \<Rightarrow> if r = [] then None else Some (encodeURIComponent r))"
    unfolding ps by (rule relay)
qed

lemma paramNames_signing_input:
  assumes "getQueryParamByType type = Inr p"
  shows "paramNames (query ([(p, encodeURIComponent a), (''SigAlg'', encodeURIComponent b)]
                            @ (case relayState of
                                 None \<Rightarrow> []
                               | Some r \<Rightarrow>
                                   if r = [] then [] else [(''RelayState'', encodeURIComponent r)])))
           = [p, ''SigAlg'']
             @ (case relayState of
                  None \<Rightarrow> [] | Some r \<Rightarrow> if r = [] then [] else [''RelayState''])"
proof -
  note pc = queryParam_clean [OF assms]
  define relay where
    "relay = (case relayState of
                None \<Rightarrow> []
              | Some r \<Rightarrow> if r = [] then [] else [(''RelayState'', encodeURIComponent r)])"
  have relay_cases: "relay = [] \<or> (\<exists>r. relay = [(''RelayState'', encodeURIComponent r)])"
    by (auto simp: relay_def split: option.splits)
  have names: "map fst relay =
                 (case relayState of
                    None \<Rightarrow> [] | Some r \<Rightarrow> if r = [] then [] else [''RelayState''])"
    by (simp add: relay_def split: option.splits)
  let ?ps = "[(p, encodeURIComponent a), (''SigAlg'', encodeURIComponent b)] @ relay"
  have "\<forall>(n, v) \<in> set ?ps. CHR ''='' \<notin> set n \<and> CHR ''&'' \<notin> set n \<and> CHR ''&'' \<notin> set v"
    using pc relay_cases by (auto simp: encodeURIComponent_no_delimiter)
  then have "params (query ?ps) = ?ps"
    by (intro params_query) simp
  then have "paramNames (query ?ps) = map fst ?ps"
    by (simp only: paramNames_def)
  then show ?thesis
    unfolding relay_def [symmetric] by (simp add: names)
qed

subsection \<open>Values of the example collaborators\<close>

lemma example_payload: "encodeURIComponent (base64 (storedBlock ''<a/>'')) = ''AQQA%2B%2F88YS8%2B''"
  by code_simp

lemma example_algorithm:
  "encodeURIComponent ''http://www.w3.org/2001/04/xmldsig-more#rsa-sha256''
     = ''http%3A%2F%2Fwww.w3.org%2F2001%2F04%2Fxmldsig-more%23rsa-sha256''"
  by code_simp

lemma example_relayState: "encodeURIComponent ''deeplink123'' = ''deeplink123''"
  by code_simp

lemma example_signature: "encodeURIComponent ''c2ln+/8='' = ''c2ln%2B%2F8%3D''"
  by code_simp

lemma example_deflated: "storedBlock ''<a/>'' = [1, 4, 0, 251, 255, 60, 97, 47, 62]"
  by (simp add: storedBlock_def)

lemma example_base64: "base64 [1, 4, 0, 251, 255, 60, 97, 47, 62] = ''AQQA+/88YS8+''"
  by (simp add: base64Char_def)

lemma example_unbase64: "unbase64 ''AQQA+/88YS8+'' = Some [1, 4, 0, 251, 255, 60, 97, 47, 62]"
  by (simp add: base64Index_def)

lemma example_inflated: "unstoredBlock [1, 4, 0, 251, 255, 60, 97, 47, 62] = Some ''<a/>''"
  by (simp add: unstoredBlock_def char_of_eq_iff)

subsection \<open>The paths of the three builders\<close>

lemma loginRequest_default:
  assumes "entityMeta (idp entity) = Some metaIdp" and "entityMeta (sp entity) = Some metaSp"
    and "customTemplate (loginRequestTemplate (entitySetting (sp entity))) = None"
  shows "loginRequestRedirectURL m entity customTagReplacement calls =
           (case buildRedirectURL m (getSingleSignOnService metaIdp redirect) urlParams_samlRequest
                   (isAuthnRequestSigned metaSp)
                   (libsaml_replaceTagsByValue m (libsaml_defaultLoginRequestTemplate m)
                      (loginRequestTagValues m (generateID (entitySetting (sp entity)) calls)
                         (getSingleSignOnService metaIdp redirect) metaSp
                         (entitySetting (sp entity))))
                   (entitySetting (sp entity)) None of
              Inl e \<Rightarrow> (Inl e, Suc calls)
            | Inr url \<Rightarrow>
                (Inr \<lparr>id' = generateID (entitySetting (sp entity)) calls, context' = url\<rparr>,
                 Suc calls))"
  using assms by (simp add: loginRequestRedirectURL_def Let_def)

lemma loginRequest_custom:
  assumes "entityMeta (idp entity) = Some metaIdp" and "entityMeta (sp entity) = Some metaSp"
    and "customTemplate (loginRequestTemplate (entitySetting (sp entity))) = Some template"
  shows "loginRequestRedirectURL m entity None calls =
           (Inl (TypeError ''customTagReplacement is not a function''), calls)"
    and "loginRequestRedirectURL m entity (Some f) calls =
           (case buildRedirectURL m (getSingleSignOnService metaIdp redirect) urlParams_samlRequest
                   (isAuthnRequestSigned metaSp) (context' (f template))
                   (entitySetting (sp entity)) None of
              Inl e \<Rightarrow> (Inl e, calls)
            | Inr url \<Rightarrow> (Inr \<lparr>id' = id' (f template), context' = url\<rparr>, calls))"
  using assms by (simp_all add: loginRequestRedirectURL_def Let_def)

lemma loginRequest_encoder:
  assumes meta: "entityMeta (idp entity) = Some metaIdp" "entityMeta (sp entity) = Some metaSp"
    and ok: "fst (loginRequestRedirectURL m entity customTagReplacement calls) = Inr result"
  obtains rawXml where
    "buildRedirectURL m (getSingleSignOnService metaIdp redirect) urlParams_samlRequest
       (isAuthnRequestSigned metaSp) rawXml (entitySetting (sp entity)) None
     = Inr (context' result)"
proof (cases "customTemplate (loginRequestTemplate (entitySetting (sp entity)))")
  case None
  let ?raw = "libsaml_replaceTagsByValue m (libsaml_defaultLoginRequestTemplate m)
                (loginRequestTagValues m (generateID (entitySetting (sp entity)) calls)
                   (getSingleSignOnService metaIdp redirect) metaSp (entitySetting (sp entity)))"
  from ok have "buildRedirectURL m (getSingleSignOnService metaIdp redirect) urlParams_samlRequest
       (isAuthnRequestSigned metaSp) ?raw (entitySetting (sp entity)) None
     = Inr (context' result)"
    unfolding loginRequest_default [OF meta None]
    by (auto split: sum.splits)
  then show thesis by (rule that)
next
  case (Some template)
  show thesis
  proof (cases customTagReplacement)
    case None
    with ok show thesis
      unfolding None loginRequest_custom(1) [OF meta Some] by simp
  next
    case f: (Some f)
    from ok have "buildRedirectURL m (getSingleSignOnService metaIdp redirect)
        urlParams_samlRequest (isAuthnRequestSigned metaSp) (context' (f template))
        (entitySetting (sp entity)) None
      = Inr (context' result)"
      unfolding f loginRequest_custom(2) [OF meta Some]
      by (auto split: sum.splits)
    then show thesis by (rule that)
  qed
qed

lemma logoutRequest_default:
  assumes "entityMeta (init entity) = Some metaInit" and "entityMeta (target entity) = Some metaTarget"
    and "customTemplate (logoutRequestTemplate (entitySetting (init entity))) = None"
  shows "logoutRequestRedirectURL m user entity relayState customTagReplacement calls =
           (case buildRedirectURL m (getSingleLogoutService metaTarget redirect)
                   urlParams_logoutRequest
                   (wantLogoutRequestSigned (entitySetting (target entity)))
                   (libsaml_replaceTagsByValue m (libsaml_defaultLogoutRequestTemplate m)
                      (logoutRequestTagValues m (generateID (entitySetting (init entity)) calls)
                         (getSingleLogoutService metaTarget redirect) metaInit
                         (entitySetting (init entity)) user))
                   (entitySetting (init entity)) relayState of
              Inl e \<Rightarrow> (Inl e, Suc calls)
            | Inr url \<Rightarrow>
                (Inr \<lparr>id' = generateID (entitySetting (init entity)) calls, context' = url\<rparr>,
                 Suc calls))"
  using assms by (simp add: logoutRequestRedirectURL_def Let_def)

lemma logoutRequest_custom:
  assumes "entityMeta (init entity) = Some metaInit" and "entityMeta (target entity) = Some metaTarget"
    and "customTemplate (logoutRequestTemplate (entitySetting (init entity))) = Some template"
  shows "logoutRequestRedirectURL m user entity relayState None calls =
           (Inl (TypeError ''customTagReplacement is not a function''), calls)"
    and "logoutRequestRedirectURL m user entity relayState (Some f) calls =
           (case buildRedirectURL m (getSingleLogoutService metaTarget redirect)
                   urlParams_logoutRequest
                   (wantLogoutRequestSigned (entitySetting (target entity)))
                   (context' (f template)) (entitySetting (init entity)) relayState of
              Inl e \<Rightarrow> (Inl e, calls)
            | Inr url \<Rightarrow> (Inr \<lparr>id' = id' (f template), context' = url\<rparr>, calls))"
  using assms by (simp_all add: logoutRequestRedirectURL_def Let_def)

lemma logoutRequest_encoder:
  assumes meta: "entityMeta (init entity) = Some metaInit"
      "entityMeta (target entity) = Some metaTarget"
    and ok: "fst (logoutRequestRedirectURL m user entity relayState customTagReplacement calls)
             = Inr result"
  obtains rawXml where
    "buildRedirectURL m (getSingleLogoutService metaTarget redirect) urlParams_logoutRequest
       (wantLogoutRequestSigned (entitySetting (target entity))) rawXml
       (entitySetting (init entity)) relayState
     = Inr (context' result)"
proof (cases "customTemplate (logoutRequestTemplate (entitySetting (init entity)))")
  case None
  let ?raw = "libsaml_replaceTagsByValue m (libsaml_defaultLogoutRequestTemplate m)
                (logoutRequestTagValues m (generateID (entitySetting (init entity)) calls)
                   (getSingleLogoutService metaTarget redirect) metaInit
                   (entitySetting (init entity)) user)"
  from ok have "buildRedirectURL m (getSingleLogoutService metaTarget redirect)
       urlParams_logoutRequest (wantLogoutRequestSigned (entitySetting (target entity))) ?raw
       (entitySetting (init entity)) relayState
     = Inr (context' result)"
    unfolding logoutRequest_default [OF meta None]
    by (auto split: sum.splits)
  then show thesis by (rule that)
next
  case (Some template)
  show thesis
  proof (cases customTagReplacement)
    case None
    with ok show thesis
      unfolding None logoutRequest_custom(1) [OF meta Some] by simp
  next
    case f: (Some f)
    from ok have "buildRedirectURL m (getSingleLogoutService metaTarget redirect)
        urlParams_logoutRequest (wantLogoutRequestSigned (entitySetting (target entity)))
        (context' (f template)) (entitySetting (init entity)) relayState
      = Inr (context' result)"
      unfolding f logoutRequest_custom(2) [OF meta Some]
      by (auto split: sum.splits)
    then show thesis by (rule that)
  qed
qed

lemma logoutResponse_default:
  assumes "entityMeta (init entity) = Some metaInit" and "entityMeta (target entity) = Some metaTarget"
    and "customTemplate (logoutResponseTemplate (entitySetting (init entity))) = None"
  shows "logoutResponseRedirectURL m requestInfo entity relayState customTagReplacement calls =
           (case buildRedirectURL m (getSingleLogoutService metaTarget redirect)
                   urlParams_logoutResponse
                   (wantLogoutResponseSigned (entitySetting (target entity)))
                   (libsaml_replaceTagsByValue m (libsaml_defaultLogoutResponseTemplate m)
                      (tvalue m (generateID (entitySetting (init entity)) calls)
                         (getSingleLogoutService metaTarget redirect) metaInit requestInfo))
                   (entitySetting (init entity)) relayState of
              Inl e \<Rightarrow> (Inl e, Suc calls)
            | Inr url \<Rightarrow>
                (Inr \<lparr>id' = generateID (entitySetting (init entity)) calls, context' = url\<rparr>,
                 Suc calls))"
  using assms by (simp add: logoutResponseRedirectURL_def Let_def)

subsection \<open>The settings flag is not read\<close>

lemma buildRedirectURL_flag:
  "buildRedirectURL m baseUrl type isSigned rawXml (setting\<lparr>authnRequestsSigned := b\<rparr>) relayState
   = buildRedirectURL m baseUrl type isSigned rawXml setting relayState"
proof (cases "url_parse_query m baseUrl")
  case (Inl e)
  then show ?thesis by (simp add: buildRedirectURL_raises)
next
  case parse: (Inr parsed)
  show ?thesis
  proof (cases "getQueryParamByType type")
    case (Inl e)
    with parse show ?thesis by (simp add: buildRedirectURL_def)
  next
    case p: (Inr p)
    show ?thesis
      by (cases isSigned)
         (simp_all add: buildRedirectURL_signed [OF p parse] buildRedirectURL_unsigned [OF p parse]
            split: sum.splits)
  qed
qed

lemma loginRequestTagValues_flag:
  "loginRequestTagValues m ident base metaSp (setting\<lparr>authnRequestsSigned := b\<rparr>)
   = loginRequestTagValues m ident base metaSp setting"
  by (simp add: loginRequestTagValues_def)

lemma loginRequest_flag:
  "loginRequestRedirectURL m
     (entity\<lparr>sp := (sp entity)\<lparr>entitySetting :=
                     (entitySetting (sp entity))\<lparr>authnRequestsSigned := b\<rparr>\<rparr>\<rparr>)
     customTagReplacement calls
   = loginRequestRedirectURL m entity customTagReplacement calls"
proof -
  let ?entity = "entity\<lparr>sp := (sp entity)\<lparr>entitySetting :=
                     (entitySetting (sp entity))\<lparr>authnRequestsSigned := b\<rparr>\<rparr>\<rparr>"
  have i: "entityMeta (idp ?entity) = entityMeta (idp entity)"
    and s: "entityMeta (sp ?entity) = entityMeta (sp entity)"
    and e: "entitySetting (sp ?entity) = (entitySetting (sp entity))\<lparr>authnRequestsSigned := b\<rparr>"
    by simp_all
  show ?thesis
    unfolding loginRequestRedirectURL_def i s e Let_def
    by (simp add: buildRedirectURL_flag loginRequestTagValues_flag
          split: option.splits sum.splits prod.splits)
qed

subsection \<open>The builders on the example entities\<close>

lemma example_loginRequest_signed:
  "loginRequestRedirectURL exampleModules (exampleLogin True) None 0
   = (Inr \<lparr>id' = ''_id'',
           context' = ''https://idp.example/sso?SAMLRequest=ATkAxv88QXV0aG5SZXF1ZXN0IElEPV9pZCBEZXN0aW5hdGlvbj1odHRwczovL2lkcC5leGFtcGxlL3Nzbz4%3D&SigAlg=http%3A%2F%2Fwww.w3.org%2F2001%2F04%2Fxmldsig-more%23rsa-sha256&Signature=c2ln%2B%2F8%3D''\<rparr>,
      1)"
  by code_simp

lemma example_logoutRequest_signed:
  "logoutRequestRedirectURL exampleModules exampleUser (exampleLogout True)
     (Some ''deeplink123'') None 0
   = (Inr \<lparr>id' = ''_id'',
           context' = ''https://idp.example/slo?SAMLRequest=AS0A0v88TG9nb3V0UmVxdWVzdCBJRD1faWQgTmFtZUlEPXVzZXJAc3AuZXhhbXBsZT4%3D&SigAlg=http%3A%2F%2Fwww.w3.org%2F2001%2F04%2Fxmldsig-more%23rsa-sha256&RelayState=deeplink123&Signature=c2ln%2B%2F8%3D''\<rparr>,
      1)"
  by code_simp

lemma example_entities:
  "entityMeta (idp (exampleLogin signed))
     = Some (exampleMeta ''https://idp.example/metadata'' ''https://idp.example/sso'' False)"
  "entityMeta (sp (exampleLogin signed))
     = Some (exampleMeta ''https://sp.example/metadata'' ''https://sp.example/acs'' signed)"
  "entityMeta (init (exampleLogout signed))
     = Some (exampleMeta ''https://sp.example/metadata'' ''https://sp.example/slo'' False)"
  "entityMeta (target (exampleLogout signed))
     = Some (exampleMeta ''https://idp.example/metadata'' ''https://idp.example/slo'' False)"
  "entitySetting (sp (exampleLogin signed)) = exampleSetting"
  "entitySetting (init (exampleLogout signed)) = exampleSetting"
  "wantLogoutRequestSigned (entitySetting (target (exampleLogout signed))) = signed"
  "wantLogoutResponseSigned (entitySetting (target (exampleLogout signed))) = signed"
  by (simp_all add: exampleLogin_def exampleLogout_def)

lemma example_endpoints:
  "getSingleSignOnService (exampleMeta entityID endpoint signed) b = endpoint"
  "getSingleLogoutService (exampleMeta entityID endpoint signed) b = endpoint"
  "isAuthnRequestSigned (exampleMeta entityID endpoint signed) = signed"
  "getEntityID (exampleMeta entityID endpoint signed) = entityID"
  by (simp_all add: exampleMeta_def)

lemma example_templates:
  "customTemplate (loginRequestTemplate exampleSetting) = None"
  "customTemplate (logoutRequestTemplate exampleSetting) = None"
  "customTemplate (logoutResponseTemplate exampleSetting) = None"
  "generateID exampleSetting 0 = ''_id''"
  by (simp_all add: exampleSetting_def customTemplate_def)

lemma example_parse:
  "url_parse_query exampleModules ''https://idp.example/sso'' = Inr None"
  "url_parse_query exampleModules ''https://idp.example/sso?tenant=a'' = Inr (Some ''tenant=a'')"
  "url_parse_query exampleModules ''http://[::1'' = Inl (TypeError ''Invalid URL'')"
  by (simp_all add: exampleModules_def exampleQuery_def)

lemma example_utility:
  "utility_base64Encode exampleModules = base64"
  "utility_deflateString exampleModules = storedBlock"
  by (simp_all add: exampleModules_def)

lemma example_loginRequest_unsigned:
  "loginRequestRedirectURL exampleModules (exampleLogin False) None 0
   = (Inr \<lparr>id' = ''_id'',
           context' = ''https://idp.example/sso?SAMLRequest=ATkAxv88QXV0aG5SZXF1ZXN0IElEPV9pZCBEZXN0aW5hdGlvbj1odHRwczovL2lkcC5leGFtcGxlL3Nzbz4%3D''\<rparr>,
      1)"
  by code_simp

lemma example_logoutResponse_without_id:
  "logoutResponseRedirectURL exampleModules
     (Some \<lparr>extract' = Some \<lparr>logoutrequest = Some \<lparr>logoutrequest_id = None\<rparr>\<rparr>\<rparr>)
     (exampleLogout False) None None 0
   = (Inr \<lparr>id' = ''_id'',
           context' = ''https://idp.example/slo?SAMLResponse=AS4A0f88TG9nb3V0UmVzcG9uc2UgSUQ9X2lkIEluUmVzcG9uc2VUbz11bmRlZmluZWQ%2B''\<rparr>,
      1)"
  by code_simp

section \<open>The claims\<close>

text \<open>
  C1. When \<open>isSigned\<close> is true, the octet string handed to the signing function is
  exactly \<open>paramName=payload&SigAlg=algorithm\<close>, followed by \<open>&RelayState=relayState\<close>
  if and only if the relay state is present and not empty, the algorithm and the relay
  state percent-encoded; the URL is the base URL, the separator, this same string and
  then the percent-encoded \<open>Signature\<close> parameter. If the signing function raises, so
  does the call; if the parse of the base URL raises, the call raises before anything is
  signed.
\<close>

theorem signing_input_order:
  assumes "getQueryParamByType type = Inr paramName"
  shows "buildRedirectURL m baseUrl type True context setting relayState =
           (case url_parse_query m baseUrl of
              Inl e \<Rightarrow> Inl e
            | Inr parsed \<Rightarrow>
           (let octets =
                  paramName @ ''=''
                  @ encodeURIComponent (utility_base64Encode m (utility_deflateString m context))
                  @ ''&SigAlg='' @ encodeURIComponent (requestSignatureAlgorithm setting)
                  @ (case relayState of
                       None \<Rightarrow> []
                     | Some r \<Rightarrow> if r = [] then [] else ''&RelayState='' @ encodeURIComponent r)
            in case libsaml_constructMessageSignature m octets (privateKey setting)
                      (privateKeyPass setting) None (requestSignatureAlgorithm setting) of
                 Inl e \<Rightarrow> Inl e
               | Inr sig \<Rightarrow>
                   Inr (baseUrl
                        @ (if (case parsed of None \<Rightarrow> True | Some q \<Rightarrow> q = [])
                           then ''?'' else ''&'')
                        @ octets @ ''&Signature='' @ encodeURIComponent sig)))"
proof (cases "url_parse_query m baseUrl")
  case (Inl e)
  then show ?thesis by (simp add: buildRedirectURL_raises)
next
  case parse: (Inr parsed)
  show ?thesis
    unfolding buildRedirectURL_signed [OF assms parse] parse Let_def
    by (simp split: sum.splits)
qed

text \<open>
  The hypothesis holds for a signed logout request with the relay state
  \<open>deeplink123\<close>, where the theorem gives the URL of the example collaborators.
\<close>

theorem signing_input_order_witness:
  "getQueryParamByType urlParams_logoutRequest = Inr ''SAMLRequest''
   \<and> exampleSign (''SAMLRequest=AQQA%2B%2F88YS8%2B&SigAlg=http%3A%2F%2Fwww.w3.org%2F2001%2F04%2Fxmldsig-more%23rsa-sha256&RelayState=deeplink123'')
         ''key'' None None ''http://www.w3.org/2001/04/xmldsig-more#rsa-sha256'' = Inr ''c2ln+/8=''
   \<and> buildRedirectURL exampleModules ''https://idp.example/slo'' urlParams_logoutRequest True
         ''<a/>'' exampleSetting (Some ''deeplink123'')
       = Inr ''https://idp.example/slo?SAMLRequest=AQQA%2B%2F88YS8%2B&SigAlg=http%3A%2F%2Fwww.w3.org%2F2001%2F04%2Fxmldsig-more%23rsa-sha256&RelayState=deeplink123&Signature=c2ln%2B%2F8%3D''"
proof -
  have h: "getQueryParamByType urlParams_logoutRequest = Inr ''SAMLRequest''"
    by (simp add: getQueryParamByType_def)
  have e: "encodeURIComponent (base64 (storedBlock ''<a/>'')) = ''AQQA%2B%2F88YS8%2B''"
    by code_simp
  have a: "encodeURIComponent ''http://www.w3.org/2001/04/xmldsig-more#rsa-sha256''
             = ''http%3A%2F%2Fwww.w3.org%2F2001%2F04%2Fxmldsig-more%23rsa-sha256''"
    by code_simp
  have r: "encodeURIComponent ''deeplink123'' = ''deeplink123''"
    by code_simp
  have s: "encodeURIComponent ''c2ln+/8='' = ''c2ln%2B%2F8%3D''"
    by code_simp
  show ?thesis
    using h signing_input_order [OF h, of exampleModules "''https://idp.example/slo''" "''<a/>''"
                   exampleSetting "Some ''deeplink123''"]
    by (simp add: exampleModules_def exampleSetting_def exampleSign_def exampleQuery_def e a r s)
qed

text \<open>
  C2, as amended. A logout request built with a relay state that is not empty holds the
  \<open>RelayState\<close> parameter, with the percent-encoded relay state as its value. When the
  request is not signed, \<open>RelayState\<close> directly follows the request parameter and is
  the last parameter. When the request is signed, \<open>RelayState\<close> directly follows
  \<open>SigAlg\<close>, which directly follows the request parameter, and comes before
  \<open>Signature\<close>: the order of the signing input of C1.
\<close>

theorem logout_relayState_position:
  assumes "r \<noteq> []"
    and "entityMeta (init entity) = Some metaInit"
    and "entityMeta (target entity) = Some metaTarget"
    and "fst (logoutRequestRedirectURL m user entity (Some r) customTagReplacement calls)
         = Inr result"
  shows "paramNames (appended (getSingleLogoutService metaTarget redirect) (context' result))
           = (if wantLogoutRequestSigned (entitySetting (target entity))
              then [''SAMLRequest'', ''SigAlg'', ''RelayState'', ''Signature'']
              else [''SAMLRequest'', ''RelayState''])
         \<and> map_of (params (appended (getSingleLogoutService metaTarget redirect)
                               (context' result))) ''RelayState''
           = Some (encodeURIComponent r)"
proof -
  from assms(2-4) obtain rawXml where built:
    "buildRedirectURL m (getSingleLogoutService metaTarget redirect) urlParams_logoutRequest
       (wantLogoutRequestSigned (entitySetting (target entity))) rawXml
       (entitySetting (init entity)) (Some r)
     = Inr (context' result)"
    by (rule logoutRequest_encoder)
  have p: "getQueryParamByType urlParams_logoutRequest = Inr ''SAMLRequest''"
    by (simp add: getQueryParamByType_def)
  have names:
    "paramNames (appended (getSingleLogoutService metaTarget redirect) (context' result))
       = (if wantLogoutRequestSigned (entitySetting (target entity))
          then [''SAMLRequest'', ''SigAlg'', ''RelayState'', ''Signature'']
          else [''SAMLRequest'', ''RelayState''])"
    using paramNames_appended(1) [OF built p] assms(1) by simp
  have val:
    "map_of (params (appended (getSingleLogoutService metaTarget redirect)
                       (context' result))) ''RelayState''
       = Some (encodeURIComponent r)"
    using paramNames_appended(3) [OF built p] assms(1) by simp
  show ?thesis by (intro conjI names val)
qed

text \<open>
  The signed logout request of the example entities with the relay state
  \<open>deeplink123\<close>.
\<close>

theorem logout_relayState_position_witness:
  "''deeplink123'' \<noteq> []
   \<and> entityMeta (init (exampleLogout True))
     = Some (exampleMeta ''https://sp.example/metadata'' ''https://sp.example/slo'' False)
   \<and> entityMeta (target (exampleLogout True))
     = Some (exampleMeta ''https://idp.example/metadata'' ''https://idp.example/slo'' False)
   \<and> fst (logoutRequestRedirectURL exampleModules exampleUser (exampleLogout True)
            (Some ''deeplink123'') None 0)
     = Inr \<lparr>id' = ''_id'',
            context' = ''https://idp.example/slo?SAMLRequest=AS0A0v88TG9nb3V0UmVxdWVzdCBJRD1faWQgTmFtZUlEPXVzZXJAc3AuZXhhbXBsZT4%3D&SigAlg=http%3A%2F%2Fwww.w3.org%2F2001%2F04%2Fxmldsig-more%23rsa-sha256&RelayState=deeplink123&Signature=c2ln%2B%2F8%3D''\<rparr>
   \<and> paramNames (appended ''https://idp.example/slo''
         ''https://idp.example/slo?SAMLRequest=AS0A0v88TG9nb3V0UmVxdWVzdCBJRD1faWQgTmFtZUlEPXVzZXJAc3AuZXhhbXBsZT4%3D&SigAlg=http%3A%2F%2Fwww.w3.org%2F2001%2F04%2Fxmldsig-more%23rsa-sha256&RelayState=deeplink123&Signature=c2ln%2B%2F8%3D'')
     = [''SAMLRequest'', ''SigAlg'', ''RelayState'', ''Signature'']
   \<and> map_of (params (appended ''https://idp.example/slo''
         ''https://idp.example/slo?SAMLRequest=AS0A0v88TG9nb3V0UmVxdWVzdCBJRD1faWQgTmFtZUlEPXVzZXJAc3AuZXhhbXBsZT4%3D&SigAlg=http%3A%2F%2Fwww.w3.org%2F2001%2F04%2Fxmldsig-more%23rsa-sha256&RelayState=deeplink123&Signature=c2ln%2B%2F8%3D'')) ''RelayState''
     = Some ''deeplink123''"
proof -
  have n: "''deeplink123'' \<noteq> []" by simp
  note a = example_entities(3) [of True] and b = example_entities(4) [of True]
  have c: "fst (logoutRequestRedirectURL exampleModules exampleUser (exampleLogout True)
            (Some ''deeplink123'') None 0)
     = Inr \<lparr>id' = ''_id'',
            context' = ''https://idp.example/slo?SAMLRequest=AS0A0v88TG9nb3V0UmVxdWVzdCBJRD1faWQgTmFtZUlEPXVzZXJAc3AuZXhhbXBsZT4%3D&SigAlg=http%3A%2F%2Fwww.w3.org%2F2001%2F04%2Fxmldsig-more%23rsa-sha256&RelayState=deeplink123&Signature=c2ln%2B%2F8%3D''\<rparr>"
    by (simp only: example_logoutRequest_signed fst_conv)
  note t = logout_relayState_position [OF n a b c]
  have d: "paramNames (appended ''https://idp.example/slo''
         ''https://idp.example/slo?SAMLRequest=AS0A0v88TG9nb3V0UmVxdWVzdCBJRD1faWQgTmFtZUlEPXVzZXJAc3AuZXhhbXBsZT4%3D&SigAlg=http%3A%2F%2Fwww.w3.org%2F2001%2F04%2Fxmldsig-more%23rsa-sha256&RelayState=deeplink123&Signature=c2ln%2B%2F8%3D'')
     = [''SAMLRequest'', ''SigAlg'', ''RelayState'', ''Signature'']"
    using t [THEN conjunct1] by (simp add: example_endpoints example_entities)
  have e: "map_of (params (appended ''https://idp.example/slo''
         ''https://idp.example/slo?SAMLRequest=AS0A0v88TG9nb3V0UmVxdWVzdCBJRD1faWQgTmFtZUlEPXVzZXJAc3AuZXhhbXBsZT4%3D&SigAlg=http%3A%2F%2Fwww.w3.org%2F2001%2F04%2Fxmldsig-more%23rsa-sha256&RelayState=deeplink123&Signature=c2ln%2B%2F8%3D'')) ''RelayState''
     = Some ''deeplink123''"
    using t [THEN conjunct2] by (simp add: example_endpoints example_relayState)
  show ?thesis by (intro conjI n a b c d e)
qed

text \<open>
  C2, as stated, fails for a signed logout request: with the relay state
  \<open>deeplink123\<close> the parameters are \<open>SAMLRequest\<close>, \<open>SigAlg\<close>, \<open>RelayState\<close>,
  \<open>Signature\<close>, so that \<open>RelayState\<close> neither directly follows the request parameter
  nor comes before \<open>SigAlg\<close>.
\<close>

theorem logout_relayState_position_counterexample:
  "fst (logoutRequestRedirectURL exampleModules exampleUser (exampleLogout True)
          (Some ''deeplink123'') None 0)
     = Inr \<lparr>id' = ''_id'',
            context' = ''https://idp.example/slo?SAMLRequest=AS0A0v88TG9nb3V0UmVxdWVzdCBJRD1faWQgTmFtZUlEPXVzZXJAc3AuZXhhbXBsZT4%3D&SigAlg=http%3A%2F%2Fwww.w3.org%2F2001%2F04%2Fxmldsig-more%23rsa-sha256&RelayState=deeplink123&Signature=c2ln%2B%2F8%3D''\<rparr>
   \<and> wantLogoutRequestSigned (entitySetting (target (exampleLogout True)))
   \<and> \<not> directlyFollows ''SAMLRequest'' ''RelayState''
         (paramNames (appended ''https://idp.example/slo''
            ''https://idp.example/slo?SAMLRequest=AS0A0v88TG9nb3V0UmVxdWVzdCBJRD1faWQgTmFtZUlEPXVzZXJAc3AuZXhhbXBsZT4%3D&SigAlg=http%3A%2F%2Fwww.w3.org%2F2001%2F04%2Fxmldsig-more%23rsa-sha256&RelayState=deeplink123&Signature=c2ln%2B%2F8%3D''))
   \<and> \<not> comesBefore ''RelayState'' ''SigAlg''
         (paramNames (appended ''https://idp.example/slo''
            ''https://idp.example/slo?SAMLRequest=AS0A0v88TG9nb3V0UmVxdWVzdCBJRD1faWQgTmFtZUlEPXVzZXJAc3AuZXhhbXBsZT4%3D&SigAlg=http%3A%2F%2Fwww.w3.org%2F2001%2F04%2Fxmldsig-more%23rsa-sha256&RelayState=deeplink123&Signature=c2ln%2B%2F8%3D''))
   \<and> directlyFollows ''SigAlg'' ''RelayState''
         (paramNames (appended ''https://idp.example/slo''
            ''https://idp.example/slo?SAMLRequest=AS0A0v88TG9nb3V0UmVxdWVzdCBJRD1faWQgTmFtZUlEPXVzZXJAc3AuZXhhbXBsZT4%3D&SigAlg=http%3A%2F%2Fwww.w3.org%2F2001%2F04%2Fxmldsig-more%23rsa-sha256&RelayState=deeplink123&Signature=c2ln%2B%2F8%3D''))"
proof -
  have names: "paramNames (appended ''https://idp.example/slo''
         ''https://idp.example/slo?SAMLRequest=AS0A0v88TG9nb3V0UmVxdWVzdCBJRD1faWQgTmFtZUlEPXVzZXJAc3AuZXhhbXBsZT4%3D&SigAlg=http%3A%2F%2Fwww.w3.org%2F2001%2F04%2Fxmldsig-more%23rsa-sha256&RelayState=deeplink123&Signature=c2ln%2B%2F8%3D'')
     = [''SAMLRequest'', ''SigAlg'', ''RelayState'', ''Signature'']"
    by (simp add: paramNames_def params_def appended_def)
  show ?thesis
    unfolding names
    by (simp add: example_logoutRequest_signed example_entities comesBefore_def)
qed

text \<open>
  C3. The value of the request parameter in the appended query is
  \<open>encodeURIComponent (base64Encode (deflateString rawXml))\<close>, the three stages in
  this order. For a raw XML that is not empty, the inverse pipeline (percent-decoding,
  base64 decoding, inflation) gives the raw XML back, for every base64 decoder and
  inflater that invert the encoder and the deflater on this input; the percent-decoding
  inverts the percent-encoding on every string.
\<close>

theorem encoding_pipeline:
  assumes "buildRedirectURL m baseUrl type isSigned rawXml setting relayState = Inr url"
    and "getQueryParamByType type = Inr p"
  shows "map_of (params (appended baseUrl url)) p =
           Some (encodeURIComponent (utility_base64Encode m (utility_deflateString m rawXml)))
         \<and> (rawXml \<noteq> []
              \<and> base64Decode (utility_base64Encode m (utility_deflateString m rawXml))
                  = Some (utility_deflateString m rawXml)
              \<and> inflateString (utility_deflateString m rawXml) = Some rawXml
              \<longrightarrow> decode base64Decode inflateString
                    (encodeURIComponent
                       (utility_base64Encode m (utility_deflateString m rawXml)))
                  = Some rawXml)"
proof (intro conjI impI)
  show "map_of (params (appended baseUrl url)) p =
          Some (encodeURIComponent (utility_base64Encode m (utility_deflateString m rawXml)))"
    by (rule paramNames_appended(2) [OF assms])
next
  assume "rawXml \<noteq> []
          \<and> base64Decode (utility_base64Encode m (utility_deflateString m rawXml))
              = Some (utility_deflateString m rawXml)
          \<and> inflateString (utility_deflateString m rawXml) = Some rawXml"
  then show "decode base64Decode inflateString
               (encodeURIComponent (utility_base64Encode m (utility_deflateString m rawXml)))
             = Some rawXml"
    by (simp add: decode_def decodeURIComponent_encodeURIComponent)
qed

text \<open>
  The example collaborators on \<open><a/>\<close>: the stored block, its base64 text and the
  payload of the URL, which decodes to \<open><a/>\<close>.
\<close>

theorem encoding_pipeline_witness:
  "buildRedirectURL exampleModules ''https://idp.example/sso'' urlParams_samlRequest False
       ''<a/>'' exampleSetting None
     = Inr ''https://idp.example/sso?SAMLRequest=AQQA%2B%2F88YS8%2B''
   \<and> getQueryParamByType urlParams_samlRequest = Inr ''SAMLRequest''
   \<and> unbase64 (base64 (storedBlock ''<a/>'')) = Some (storedBlock ''<a/>'')
   \<and> unstoredBlock (storedBlock ''<a/>'') = Some ''<a/>''
   \<and> map_of (params (appended ''https://idp.example/sso''
                  ''https://idp.example/sso?SAMLRequest=AQQA%2B%2F88YS8%2B'')) ''SAMLRequest''
       = Some ''AQQA%2B%2F88YS8%2B''
   \<and> decode unbase64 unstoredBlock ''AQQA%2B%2F88YS8%2B'' = Some ''<a/>''"
proof -
  have h: "getQueryParamByType urlParams_samlRequest = Inr ''SAMLRequest''"
    by (simp add: getQueryParamByType_def)
  have u: "buildRedirectURL exampleModules ''https://idp.example/sso'' urlParams_samlRequest
             False ''<a/>'' exampleSetting None
           = Inr ''https://idp.example/sso?SAMLRequest=AQQA%2B%2F88YS8%2B''"
    by (simp add: buildRedirectURL_unsigned [OF h example_parse(1)] example_utility
          example_payload)
  have b: "unbase64 (base64 (storedBlock ''<a/>'')) = Some (storedBlock ''<a/>'')"
    by (simp only: example_deflated example_base64 example_unbase64)
  have i: "unstoredBlock (storedBlock ''<a/>'') = Some ''<a/>''"
    by (simp only: example_deflated example_inflated)
  have e: "encodeURIComponent
             (utility_base64Encode exampleModules (utility_deflateString exampleModules ''<a/>''))
           = ''AQQA%2B%2F88YS8%2B''"
    by (simp add: exampleModules_def example_payload)
  have n: "''<a/>'' \<noteq> []" by simp
  note t = encoding_pipeline [OF u h, where base64Decode = unbase64
             and inflateString = unstoredBlock, unfolded e]
  have v: "map_of (params (appended ''https://idp.example/sso''
                    ''https://idp.example/sso?SAMLRequest=AQQA%2B%2F88YS8%2B'')) ''SAMLRequest''
           = Some ''AQQA%2B%2F88YS8%2B''"
    by (rule t [THEN conjunct1])
  have d: "decode unbase64 unstoredBlock ''AQQA%2B%2F88YS8%2B'' = Some ''<a/>''"
    using t [THEN conjunct2] n b i by (simp add: exampleModules_def)
  show ?thesis by (intro conjI u h b i v d)
qed

text \<open>
  C4, as amended. When the parse of the base URL returns a query string of at least one
  character, the first appended parameter follows \<open>&\<close>; when it returns none
  (\<open>null\<close>, or the empty string), the first appended parameter follows \<open>?\<close>. The
  parameters after the first are joined by \<open>&\<close>, and no other \<open>?\<close> is written:
  what is appended is the query of the parameter list, which reads back as that list.
  A parse that raises is not taken as "no existing parameter": line 57 has no handler,
  the call raises what the parse raised, and no URL is built.
\<close>

theorem separator_of_first_parameter:
  "(\<forall>e. url_parse_query m baseUrl = Inl e
          \<longrightarrow> buildRedirectURL m baseUrl type isSigned rawXml setting relayState = Inl e)
   \<and> (\<forall>url. buildRedirectURL m baseUrl type isSigned rawXml setting relayState = Inr url
          \<longrightarrow> (\<exists>p ps parsed.
                  url_parse_query m baseUrl = Inr parsed
                  \<and> getQueryParamByType type = Inr p
                  \<and> map fst ps =
                        p # (if isSigned then [''SigAlg''] else [])
                        @ (case relayState of
                             None \<Rightarrow> [] | Some r \<Rightarrow> if r = [] then [] else [''RelayState''])
                        @ (if isSigned then [''Signature''] else [])
                  \<and> params (query ps) = ps
                  \<and> CHR ''?'' \<notin> set (query ps)
                  \<and> ((\<exists>c q. parsed = Some (c # q)) \<longrightarrow> url = baseUrl @ ''&'' @ query ps)
                  \<and> (parsed = None \<or> parsed = Some [] \<longrightarrow> url = baseUrl @ ''?'' @ query ps)))"
proof (intro conjI allI impI)
  fix e
  assume "url_parse_query m baseUrl = Inl e"
  then show "buildRedirectURL m baseUrl type isSigned rawXml setting relayState = Inl e"
    by (rule buildRedirectURL_raises)
next
  fix url
  assume ok: "buildRedirectURL m baseUrl type isSigned rawXml setting relayState = Inr url"
  then obtain p parsed where p: "getQueryParamByType type = Inr p"
    and parse: "url_parse_query m baseUrl = Inr parsed"
    by (rule buildRedirectURL_queryParam)
  from buildRedirectURL_params [OF ok p parse] obtain ps where all:
    "url = baseUrl
           @ (case parsed of Some (c # q) \<Rightarrow> CHR ''&'' | _ \<Rightarrow> CHR ''?'')
           # query ps
     \<and> params (appended baseUrl url) = ps
     \<and> CHR ''?'' \<notin> set (query ps)
     \<and> map fst ps =
           p # (if isSigned then [''SigAlg''] else [])
           @ (case relayState of
                None \<Rightarrow> [] | Some r \<Rightarrow> if r = [] then [] else [''RelayState''])
           @ (if isSigned then [''Signature''] else [])
     \<and> map_of ps p =
           Some (encodeURIComponent
                   (utility_base64Encode m (utility_deflateString m rawXml)))
     \<and> map_of ps ''RelayState'' =
           (case relayState of
              None \<Rightarrow> None
            | Some r \<Rightarrow> if r = [] then None else Some (encodeURIComponent r))" ..
  note url = all [THEN conjunct1]
    and ps = all [THEN conjunct2, THEN conjunct1]
    and mark = all [THEN conjunct2, THEN conjunct2, THEN conjunct1]
    and names = all [THEN conjunct2, THEN conjunct2, THEN conjunct2, THEN conjunct1]
  have again: "params (query ps) = ps"
    using ps unfolding url by (simp add: appended_append)
  have amp: "(\<exists>c q. parsed = Some (c # q)) \<longrightarrow> url = baseUrl @ ''&'' @ query ps"
  proof (intro impI, elim exE)
    fix c q
    assume "parsed = Some (c # q)"
    with url show "url = baseUrl @ ''&'' @ query ps" by simp
  qed
  have mark': "parsed = None \<or> parsed = Some [] \<longrightarrow> url = baseUrl @ ''?'' @ query ps"
  proof (intro impI, elim disjE)
    assume "parsed = None"
    with url show "url = baseUrl @ ''?'' @ query ps" by simp
  next
    assume "parsed = Some []"
    with url show "url = baseUrl @ ''?'' @ query ps" by simp
  qed
  show "\<exists>p ps parsed.
          url_parse_query m baseUrl = Inr parsed
          \<and> getQueryParamByType type = Inr p
          \<and> map fst ps =
                p # (if isSigned then [''SigAlg''] else [])
                @ (case relayState of
                     None \<Rightarrow> [] | Some r \<Rightarrow> if r = [] then [] else [''RelayState''])
                @ (if isSigned then [''Signature''] else [])
          \<and> params (query ps) = ps
          \<and> CHR ''?'' \<notin> set (query ps)
          \<and> ((\<exists>c q. parsed = Some (c # q)) \<longrightarrow> url = baseUrl @ ''&'' @ query ps)
          \<and> (parsed = None \<or> parsed = Some [] \<longrightarrow> url = baseUrl @ ''?'' @ query ps)"
    by (intro exI [of _ p] exI [of _ ps] exI [of _ parsed] conjI parse p names again mark amp mark')
qed

text \<open>
  An unsigned login request to a base URL that holds the query \<open>tenant=a\<close>: the
  request parameter follows \<open>&\<close>. To a base URL on which the parse raises, the call
  raises.
\<close>

theorem separator_of_first_parameter_witness:
  "url_parse_query exampleModules ''https://idp.example/sso?tenant=a'' = Inr (Some ''tenant=a'')
   \<and> buildRedirectURL exampleModules ''https://idp.example/sso?tenant=a'' urlParams_samlRequest
         False ''<a/>'' exampleSetting None
       = Inr ''https://idp.example/sso?tenant=a&SAMLRequest=AQQA%2B%2F88YS8%2B''
   \<and> (\<exists>p ps parsed.
          url_parse_query exampleModules ''https://idp.example/sso?tenant=a'' = Inr parsed
          \<and> getQueryParamByType urlParams_samlRequest = Inr p
          \<and> map fst ps =
                p # (if False then [''SigAlg''] else [])
                @ (case None :: string option of
                     None \<Rightarrow> [] | Some r \<Rightarrow> if r = [] then [] else [''RelayState''])
                @ (if False then [''Signature''] else [])
          \<and> params (query ps) = ps
          \<and> CHR ''?'' \<notin> set (query ps)
          \<and> ((\<exists>c q. parsed = Some (c # q)) \<longrightarrow>
                 ''https://idp.example/sso?tenant=a&SAMLRequest=AQQA%2B%2F88YS8%2B''
                   = ''https://idp.example/sso?tenant=a'' @ ''&'' @ query ps)
          \<and> (parsed = None \<or> parsed = Some [] \<longrightarrow>
                 ''https://idp.example/sso?tenant=a&SAMLRequest=AQQA%2B%2F88YS8%2B''
                   = ''https://idp.example/sso?tenant=a'' @ ''?'' @ query ps))
   \<and> url_parse_query exampleModules ''http://[::1'' = Inl (TypeError ''Invalid URL'')
   \<and> buildRedirectURL exampleModules ''http://[::1'' urlParams_samlRequest True ''<a/>''
         exampleSetting (Some ''deeplink123'')
       = Inl (TypeError ''Invalid URL'')"
proof -
  note q = example_parse(2)
  have p: "getQueryParamByType urlParams_samlRequest = Inr ''SAMLRequest''"
    by (simp add: getQueryParamByType_def)
  have h: "buildRedirectURL exampleModules ''https://idp.example/sso?tenant=a''
             urlParams_samlRequest False ''<a/>'' exampleSetting None
           = Inr ''https://idp.example/sso?tenant=a&SAMLRequest=AQQA%2B%2F88YS8%2B''"
    by (simp add: buildRedirectURL_unsigned [OF p q] example_utility example_payload)
  note r = example_parse(3)
  show ?thesis
    by (intro conjI q h r
          separator_of_first_parameter [THEN conjunct2, rule_format, OF h]
          separator_of_first_parameter [THEN conjunct1, rule_format, OF r])
qed

text \<open>
  C4, as stated, fails where the parse raises: on the base URL \<open>http://[::1\<close> the call
  raises the error of the parse, and does not return the URL that "no existing
  parameter" would give.
\<close>

theorem separator_of_first_parameter_counterexample:
  "url_parse_query exampleModules ''http://[::1'' = Inl (TypeError ''Invalid URL'')
   \<and> buildRedirectURL exampleModules ''http://[::1'' urlParams_samlRequest False ''<a/>''
         exampleSetting None
       = Inl (TypeError ''Invalid URL'')
   \<and> buildRedirectURL exampleModules ''http://[::1'' urlParams_samlRequest False ''<a/>''
         exampleSetting None
       \<noteq> Inr ''http://[::1?SAMLRequest=AQQA%2B%2F88YS8%2B''"
  by (simp add: example_parse buildRedirectURL_raises [OF example_parse(3)])

text \<open>
  C5. When the relay state is absent or the empty string, no \<open>RelayState\<close> parameter
  is written. The signing input is the query of the request parameter and \<open>SigAlg\<close>
  alone (the call raises, unsigned, if the parse of the base URL does); what is appended
  to the base URL is the request parameter, followed, when the
  message is signed, by \<open>SigAlg\<close> and \<open>Signature\<close> only, so that no parameter of
  the appended query is named \<open>RelayState\<close>, with or without a value. The base URL
  itself is the caller's text and is copied as it is.
\<close>

theorem relayState_omitted:
  assumes "relayState = None \<or> relayState = Some []"
    and "getQueryParamByType type = Inr p"
  shows "buildRedirectURL m baseUrl type isSigned rawXml setting relayState =
           (case url_parse_query m baseUrl of
              Inl e \<Rightarrow> Inl e
            | Inr parsed \<Rightarrow>
           (let sep = (case parsed of Some (c # q) \<Rightarrow> CHR ''&'' | _ \<Rightarrow> CHR ''?'');
                payload = encodeURIComponent
                            (utility_base64Encode m (utility_deflateString m rawXml));
                signed =
                  [(p, payload),
                   (''SigAlg'', encodeURIComponent (requestSignatureAlgorithm setting))]
            in if isSigned then
                 (case libsaml_constructMessageSignature m (query signed) (privateKey setting)
                         (privateKeyPass setting) None (requestSignatureAlgorithm setting) of
                    Inl e \<Rightarrow> Inl e
                  | Inr sig \<Rightarrow>
                      Inr (baseUrl @ sep
                           # query (signed @ [(''Signature'', encodeURIComponent sig)])))
               else Inr (baseUrl @ sep # query [(p, payload)])))
         \<and> paramNames
               (query [(p, encodeURIComponent
                             (utility_base64Encode m (utility_deflateString m rawXml))),
                       (''SigAlg'', encodeURIComponent (requestSignatureAlgorithm setting))])
             = [p, ''SigAlg'']
         \<and> p \<noteq> ''RelayState''
         \<and> (\<forall>url. buildRedirectURL m baseUrl type isSigned rawXml setting relayState = Inr url
                \<longrightarrow> paramNames (appended baseUrl url)
                      = p # (if isSigned then [''SigAlg'', ''Signature''] else [])
                    \<and> ''RelayState'' \<notin> set (paramNames (appended baseUrl url)))"
proof -
  note pc = queryParam_clean [OF assms(2)]
  have relay: "(case relayState of
                  None \<Rightarrow> []
                | Some r \<Rightarrow> if r = [] then [] else [(''RelayState'', encodeURIComponent r)]) = []"
    using assms(1) by (elim disjE) simp_all
  have names: "(case relayState of
                  None \<Rightarrow> [] | Some r \<Rightarrow> if r = [] then [] else [''RelayState'']) = []"
    using assms(1) by (elim disjE) simp_all
  have a: "buildRedirectURL m baseUrl type isSigned rawXml setting relayState =
           (case url_parse_query m baseUrl of
              Inl e \<Rightarrow> Inl e
            | Inr parsed \<Rightarrow>
           (let sep = (case parsed of Some (c # q) \<Rightarrow> CHR ''&'' | _ \<Rightarrow> CHR ''?'');
                payload = encodeURIComponent
                            (utility_base64Encode m (utility_deflateString m rawXml));
                signed =
                  [(p, payload),
                   (''SigAlg'', encodeURIComponent (requestSignatureAlgorithm setting))]
            in if isSigned then
                 (case libsaml_constructMessageSignature m (query signed) (privateKey setting)
                         (privateKeyPass setting) None (requestSignatureAlgorithm setting) of
                    Inl e \<Rightarrow> Inl e
                  | Inr sig \<Rightarrow>
                      Inr (baseUrl @ sep
                           # query (signed @ [(''Signature'', encodeURIComponent sig)])))
               else Inr (baseUrl @ sep # query [(p, payload)])))"
  proof (cases "url_parse_query m baseUrl")
    case (Inl e)
    then show ?thesis by (simp add: buildRedirectURL_raises)
  next
    case parse: (Inr parsed)
    show ?thesis
      unfolding buildRedirectURL_query [OF assms(2) parse] parse relay Let_def
      by (simp split: sum.splits)
  qed
  have b: "paramNames
               (query [(p, encodeURIComponent
                             (utility_base64Encode m (utility_deflateString m rawXml))),
                       (''SigAlg'', encodeURIComponent (requestSignatureAlgorithm setting))])
             = [p, ''SigAlg'']"
    using paramNames_signing_input [OF assms(2), of _ _ None] by simp
  have c: "p \<noteq> ''RelayState''" by (rule pc)
  have d: "\<forall>url. buildRedirectURL m baseUrl type isSigned rawXml setting relayState = Inr url
                \<longrightarrow> paramNames (appended baseUrl url)
                      = p # (if isSigned then [''SigAlg'', ''Signature''] else [])
                    \<and> ''RelayState'' \<notin> set (paramNames (appended baseUrl url))"
  proof (intro allI impI)
    fix url
    assume "buildRedirectURL m baseUrl type isSigned rawXml setting relayState = Inr url"
    from paramNames_appended(1) [OF this assms(2)]
    have n: "paramNames (appended baseUrl url)
               = p # (if isSigned then [''SigAlg'', ''Signature''] else [])"
      unfolding names by simp
    moreover have "''RelayState'' \<notin> set (p # (if isSigned then [''SigAlg'', ''Signature''] else []))"
      using c by simp
    ultimately show "paramNames (appended baseUrl url)
                       = p # (if isSigned then [''SigAlg'', ''Signature''] else [])
                     \<and> ''RelayState'' \<notin> set (paramNames (appended baseUrl url))"
      by simp
  qed
  show ?thesis by (intro conjI a b c d)
qed

text \<open>
  A signed login request without a relay state, with the example collaborators.
\<close>

theorem relayState_omitted_witness:
  "getQueryParamByType urlParams_samlRequest = Inr ''SAMLRequest''
   \<and> buildRedirectURL exampleModules ''https://idp.example/sso'' urlParams_samlRequest True
         ''<a/>'' exampleSetting None
       = Inr ''https://idp.example/sso?SAMLRequest=AQQA%2B%2F88YS8%2B&SigAlg=http%3A%2F%2Fwww.w3.org%2F2001%2F04%2Fxmldsig-more%23rsa-sha256&Signature=c2ln%2B%2F8%3D''
   \<and> paramNames (appended ''https://idp.example/sso''
         ''https://idp.example/sso?SAMLRequest=AQQA%2B%2F88YS8%2B&SigAlg=http%3A%2F%2Fwww.w3.org%2F2001%2F04%2Fxmldsig-more%23rsa-sha256&Signature=c2ln%2B%2F8%3D'')
       = [''SAMLRequest'', ''SigAlg'', ''Signature'']
   \<and> ''RelayState'' \<notin> set (paramNames (appended ''https://idp.example/sso''
         ''https://idp.example/sso?SAMLRequest=AQQA%2B%2F88YS8%2B&SigAlg=http%3A%2F%2Fwww.w3.org%2F2001%2F04%2Fxmldsig-more%23rsa-sha256&Signature=c2ln%2B%2F8%3D''))"
proof -
  have r: "(None :: string option) = None \<or> (None :: string option) = Some []" by simp
  have h: "getQueryParamByType urlParams_samlRequest = Inr ''SAMLRequest''"
    by (simp add: getQueryParamByType_def)
  note t = relayState_omitted [OF r h, where m = exampleModules
             and baseUrl = "''https://idp.example/sso''" and isSigned = True
             and rawXml = "''<a/>''" and setting = exampleSetting]
  have u: "buildRedirectURL exampleModules ''https://idp.example/sso'' urlParams_samlRequest True
             ''<a/>'' exampleSetting None
           = Inr ''https://idp.example/sso?SAMLRequest=AQQA%2B%2F88YS8%2B&SigAlg=http%3A%2F%2Fwww.w3.org%2F2001%2F04%2Fxmldsig-more%23rsa-sha256&Signature=c2ln%2B%2F8%3D''"
    unfolding t [THEN conjunct1]
    by (simp add: exampleModules_def exampleSetting_def exampleSign_def exampleQuery_def
          example_payload example_algorithm example_signature)
  from t [THEN conjunct2, THEN conjunct2, THEN conjunct2, rule_format, OF u]
  have n: "paramNames (appended ''https://idp.example/sso''
             ''https://idp.example/sso?SAMLRequest=AQQA%2B%2F88YS8%2B&SigAlg=http%3A%2F%2Fwww.w3.org%2F2001%2F04%2Fxmldsig-more%23rsa-sha256&Signature=c2ln%2B%2F8%3D'')
           = [''SAMLRequest'', ''SigAlg'', ''Signature'']"
    and k: "''RelayState'' \<notin> set (paramNames (appended ''https://idp.example/sso''
             ''https://idp.example/sso?SAMLRequest=AQQA%2B%2F88YS8%2B&SigAlg=http%3A%2F%2Fwww.w3.org%2F2001%2F04%2Fxmldsig-more%23rsa-sha256&Signature=c2ln%2B%2F8%3D''))"
    by simp_all
  show ?thesis by (intro conjI h u n k)
qed

text \<open>
  C6, as amended. A login request that is built is signed if and only if the metadata
  of the service provider marks authentication requests as signed
  (\<open>metadata.sp.isAuthnRequestSigned()\<close>): then the URL is the base URL, the separator
  and the query of \<open>SAMLRequest\<close>, \<open>SigAlg\<close> and \<open>Signature\<close>, the signature being
  what the signing function answered on the query of the first two; otherwise it is the
  base URL, the separator and \<open>SAMLRequest\<close> alone. The settings of the service
  provider are not consulted for this: changing their flag \<open>authnRequestsSigned\<close>
  changes nothing in the result.
\<close>

theorem login_signed_iff:
  assumes "entityMeta (idp entity) = Some metaIdp" and "entityMeta (sp entity) = Some metaSp"
    and "fst (loginRequestRedirectURL m entity customTagReplacement calls) = Inr result"
  shows "paramNames (appended (getSingleSignOnService metaIdp redirect) (context' result))
           = (if isAuthnRequestSigned metaSp
              then [''SAMLRequest'', ''SigAlg'', ''Signature''] else [''SAMLRequest''])
         \<and> (''SigAlg'' \<in> set (paramNames (appended (getSingleSignOnService metaIdp redirect)
                                        (context' result)))
              \<and> ''Signature'' \<in> set (paramNames (appended (getSingleSignOnService metaIdp redirect)
                                             (context' result)))
            \<longleftrightarrow> isAuthnRequestSigned metaSp)
         \<and> (\<exists>rawXml parsed.
               url_parse_query m (getSingleSignOnService metaIdp redirect) = Inr parsed
               \<and> (let sep = (case parsed of Some (c # q) \<Rightarrow> CHR ''&'' | _ \<Rightarrow> CHR ''?'');
                       payload = encodeURIComponent
                                   (utility_base64Encode m (utility_deflateString m rawXml));
                       signed =
                         [(''SAMLRequest'', payload),
                          (''SigAlg'',
                           encodeURIComponent
                             (requestSignatureAlgorithm (entitySetting (sp entity))))]
                   in if isAuthnRequestSigned metaSp then
                        (\<exists>sig. libsaml_constructMessageSignature m (query signed)
                                 (privateKey (entitySetting (sp entity)))
                                 (privateKeyPass (entitySetting (sp entity))) None
                                 (requestSignatureAlgorithm (entitySetting (sp entity)))
                               = Inr sig
                             \<and> context' result
                                 = getSingleSignOnService metaIdp redirect @ sep
                                   # query (signed @ [(''Signature'', encodeURIComponent sig)]))
                      else context' result
                             = getSingleSignOnService metaIdp redirect @ sep
                               # query [(''SAMLRequest'', payload)]))
         \<and> (\<forall>b. loginRequestRedirectURL m
                    (entity\<lparr>sp := (sp entity)\<lparr>entitySetting :=
                                    (entitySetting (sp entity))\<lparr>authnRequestsSigned := b\<rparr>\<rparr>\<rparr>)
                    customTagReplacement calls
                  = loginRequestRedirectURL m entity customTagReplacement calls)"
proof -
  define base where "base = getSingleSignOnService metaIdp redirect"
  define setting where "setting = entitySetting (sp entity)"
  from assms obtain rawXml where built:
    "buildRedirectURL m base urlParams_samlRequest (isAuthnRequestSigned metaSp) rawXml
       setting None
     = Inr (context' result)"
    unfolding base_def setting_def by (rule loginRequest_encoder)
  have p: "getQueryParamByType urlParams_samlRequest = Inr ''SAMLRequest''"
    by (simp add: getQueryParamByType_def)
  from built obtain p' parsed where parse: "url_parse_query m base = Inr parsed"
    by (rule buildRedirectURL_queryParam)
  have names:
    "paramNames (appended base (context' result))
       = (if isAuthnRequestSigned metaSp
          then [''SAMLRequest'', ''SigAlg'', ''Signature''] else [''SAMLRequest''])"
    using paramNames_appended(1) [OF built p] by simp
  have iff: "''SigAlg'' \<in> set (paramNames (appended base (context' result)))
             \<and> ''Signature'' \<in> set (paramNames (appended base (context' result)))
             \<longleftrightarrow> isAuthnRequestSigned metaSp"
    unfolding names by simp
  define sep where "sep = (case parsed of Some (c # q) \<Rightarrow> CHR ''&'' | _ \<Rightarrow> CHR ''?'')"
  define payload where
    "payload = encodeURIComponent (utility_base64Encode m (utility_deflateString m rawXml))"
  define signed where
    "signed = [(''SAMLRequest'', payload),
               (''SigAlg'', encodeURIComponent (requestSignatureAlgorithm setting))]"
  define answer where
    "answer = libsaml_constructMessageSignature m (query signed) (privateKey setting)
                (privateKeyPass setting) None (requestSignatureAlgorithm setting)"
  have shape:
    "buildRedirectURL m base urlParams_samlRequest (isAuthnRequestSigned metaSp) rawXml
       setting None
     = (if isAuthnRequestSigned metaSp then
          (case answer of
             Inl e \<Rightarrow> Inl e
           | Inr sig \<Rightarrow>
               Inr (base @ sep # query (signed @ [(''Signature'', encodeURIComponent sig)])))
        else Inr (base @ sep # query [(''SAMLRequest'', payload)]))"
    unfolding buildRedirectURL_query [OF p parse] answer_def signed_def payload_def sep_def Let_def
    by (simp split: sum.splits)
  have url: "if isAuthnRequestSigned metaSp then
               (\<exists>sig. answer = Inr sig
                      \<and> context' result
                          = base @ sep
                            # query (signed @ [(''Signature'', encodeURIComponent sig)]))
             else context' result = base @ sep # query [(''SAMLRequest'', payload)]"
  proof (cases "isAuthnRequestSigned metaSp")
    case True
    with built shape have
      "(case answer of
          Inl e \<Rightarrow> Inl e
        | Inr sig \<Rightarrow>
            Inr (base @ sep # query (signed @ [(''Signature'', encodeURIComponent sig)])))
       = Inr (context' result)"
      by simp
    then have "\<exists>sig. answer = Inr sig
                 \<and> context' result
                     = base @ sep # query (signed @ [(''Signature'', encodeURIComponent sig)])"
      by (cases answer) auto
    with True show ?thesis by simp
  next
    case False
    with built shape show ?thesis by simp
  qed
  have signing:
    "\<exists>rawXml parsed.
       url_parse_query m base = Inr parsed
       \<and> (let sep = (case parsed of Some (c # q) \<Rightarrow> CHR ''&'' | _ \<Rightarrow> CHR ''?'');
               payload = encodeURIComponent
                           (utility_base64Encode m (utility_deflateString m rawXml));
               signed =
                 [(''SAMLRequest'', payload),
                  (''SigAlg'', encodeURIComponent (requestSignatureAlgorithm setting))]
           in if isAuthnRequestSigned metaSp then
                (\<exists>sig. libsaml_constructMessageSignature m (query signed)
                         (privateKey setting) (privateKeyPass setting) None
                         (requestSignatureAlgorithm setting)
                       = Inr sig
                     \<and> context' result
                         = base @ sep
                           # query (signed @ [(''Signature'', encodeURIComponent sig)]))
              else context' result = base @ sep # query [(''SAMLRequest'', payload)])"
    using url
    unfolding Let_def answer_def signed_def payload_def sep_def
    by (intro exI [of _ rawXml] exI [of _ parsed] conjI parse)
  have unread:
    "\<forall>b. loginRequestRedirectURL m
            (entity\<lparr>sp := (sp entity)\<lparr>entitySetting :=
                            (entitySetting (sp entity))\<lparr>authnRequestsSigned := b\<rparr>\<rparr>\<rparr>)
            customTagReplacement calls
          = loginRequestRedirectURL m entity customTagReplacement calls"
    by (intro allI) (rule loginRequest_flag)
  show ?thesis
    using names iff signing unread
    unfolding base_def setting_def
    by (intro conjI)
qed

text \<open>
  The signed login request of the example entities: its signature is the answer of the
  example signer.
\<close>

theorem login_signed_iff_witness:
  "entityMeta (idp (exampleLogin True))
     = Some (exampleMeta ''https://idp.example/metadata'' ''https://idp.example/sso'' False)
   \<and> entityMeta (sp (exampleLogin True))
     = Some (exampleMeta ''https://sp.example/metadata'' ''https://sp.example/acs'' True)
   \<and> fst (loginRequestRedirectURL exampleModules (exampleLogin True) None 0)
     = Inr \<lparr>id' = ''_id'',
            context' = ''https://idp.example/sso?SAMLRequest=ATkAxv88QXV0aG5SZXF1ZXN0IElEPV9pZCBEZXN0aW5hdGlvbj1odHRwczovL2lkcC5leGFtcGxlL3Nzbz4%3D&SigAlg=http%3A%2F%2Fwww.w3.org%2F2001%2F04%2Fxmldsig-more%23rsa-sha256&Signature=c2ln%2B%2F8%3D''\<rparr>
   \<and> paramNames (appended ''https://idp.example/sso''
         ''https://idp.example/sso?SAMLRequest=ATkAxv88QXV0aG5SZXF1ZXN0IElEPV9pZCBEZXN0aW5hdGlvbj1odHRwczovL2lkcC5leGFtcGxlL3Nzbz4%3D&SigAlg=http%3A%2F%2Fwww.w3.org%2F2001%2F04%2Fxmldsig-more%23rsa-sha256&Signature=c2ln%2B%2F8%3D'')
     = [''SAMLRequest'', ''SigAlg'', ''Signature'']
   \<and> libsaml_constructMessageSignature exampleModules
         ''SAMLRequest=ATkAxv88QXV0aG5SZXF1ZXN0IElEPV9pZCBEZXN0aW5hdGlvbj1odHRwczovL2lkcC5leGFtcGxlL3Nzbz4%3D&SigAlg=http%3A%2F%2Fwww.w3.org%2F2001%2F04%2Fxmldsig-more%23rsa-sha256''
         ''key'' None None ''http://www.w3.org/2001/04/xmldsig-more#rsa-sha256''
     = Inr ''c2ln+/8=''"
proof -
  note a = example_entities(1) [of True] and b = example_entities(2) [of True]
  have s: "libsaml_constructMessageSignature exampleModules
         ''SAMLRequest=ATkAxv88QXV0aG5SZXF1ZXN0IElEPV9pZCBEZXN0aW5hdGlvbj1odHRwczovL2lkcC5leGFtcGxlL3Nzbz4%3D&SigAlg=http%3A%2F%2Fwww.w3.org%2F2001%2F04%2Fxmldsig-more%23rsa-sha256''
         ''key'' None None ''http://www.w3.org/2001/04/xmldsig-more#rsa-sha256''
     = Inr ''c2ln+/8=''"
    by (simp add: exampleModules_def exampleSign_def)
  have c: "fst (loginRequestRedirectURL exampleModules (exampleLogin True) None 0)
     = Inr \<lparr>id' = ''_id'',
            context' = ''https://idp.example/sso?SAMLRequest=ATkAxv88QXV0aG5SZXF1ZXN0IElEPV9pZCBEZXN0aW5hdGlvbj1odHRwczovL2lkcC5leGFtcGxlL3Nzbz4%3D&SigAlg=http%3A%2F%2Fwww.w3.org%2F2001%2F04%2Fxmldsig-more%23rsa-sha256&Signature=c2ln%2B%2F8%3D''\<rparr>"
    by (simp only: example_loginRequest_signed fst_conv)
  have d: "paramNames (appended ''https://idp.example/sso''
         ''https://idp.example/sso?SAMLRequest=ATkAxv88QXV0aG5SZXF1ZXN0IElEPV9pZCBEZXN0aW5hdGlvbj1odHRwczovL2lkcC5leGFtcGxlL3Nzbz4%3D&SigAlg=http%3A%2F%2Fwww.w3.org%2F2001%2F04%2Fxmldsig-more%23rsa-sha256&Signature=c2ln%2B%2F8%3D'')
     = [''SAMLRequest'', ''SigAlg'', ''Signature'']"
    using login_signed_iff [OF a b c, THEN conjunct1]
    by (simp add: example_endpoints)
  show ?thesis by (intro conjI a b c d s)
qed

text \<open>
  C6, as stated, fails: the settings of the example service provider mark
  authentication requests as signed, its metadata does not, and the login request is
  built unsigned, with neither \<open>SigAlg\<close> nor \<open>Signature\<close>.
\<close>

theorem login_signed_iff_counterexample:
  "authnRequestsSigned (entitySetting (sp (exampleLogin False)))
   \<and> entityMeta (sp (exampleLogin False))
     = Some (exampleMeta ''https://sp.example/metadata'' ''https://sp.example/acs'' False)
   \<and> fst (loginRequestRedirectURL exampleModules (exampleLogin False) None 0)
     = Inr \<lparr>id' = ''_id'',
            context' = ''https://idp.example/sso?SAMLRequest=ATkAxv88QXV0aG5SZXF1ZXN0IElEPV9pZCBEZXN0aW5hdGlvbj1odHRwczovL2lkcC5leGFtcGxlL3Nzbz4%3D''\<rparr>
   \<and> paramNames (appended ''https://idp.example/sso''
         ''https://idp.example/sso?SAMLRequest=ATkAxv88QXV0aG5SZXF1ZXN0IElEPV9pZCBEZXN0aW5hdGlvbj1odHRwczovL2lkcC5leGFtcGxlL3Nzbz4%3D'')
     = [''SAMLRequest'']
   \<and> ''SigAlg'' \<notin> set (paramNames (appended ''https://idp.example/sso''
         ''https://idp.example/sso?SAMLRequest=ATkAxv88QXV0aG5SZXF1ZXN0IElEPV9pZCBEZXN0aW5hdGlvbj1odHRwczovL2lkcC5leGFtcGxlL3Nzbz4%3D''))
   \<and> ''Signature'' \<notin> set (paramNames (appended ''https://idp.example/sso''
         ''https://idp.example/sso?SAMLRequest=ATkAxv88QXV0aG5SZXF1ZXN0IElEPV9pZCBEZXN0aW5hdGlvbj1odHRwczovL2lkcC5leGFtcGxlL3Nzbz4%3D''))"
proof -
  have names: "paramNames (appended ''https://idp.example/sso''
         ''https://idp.example/sso?SAMLRequest=ATkAxv88QXV0aG5SZXF1ZXN0IElEPV9pZCBEZXN0aW5hdGlvbj1odHRwczovL2lkcC5leGFtcGxlL3Nzbz4%3D'')
     = [''SAMLRequest'']"
    by (simp add: paramNames_def params_def appended_def)
  show ?thesis
    unfolding names
    by (simp add: example_loginRequest_unsigned example_entities exampleSetting_def)
qed

text \<open>
  C7. When a metadata view is absent (the identity provider's or the service provider's
  for a login request, the initiator's or the target's for a logout request and a logout
  response), the builder raises the error \<open>Missing declaration of metadata\<close>: it
  returns no URL and no identifier, and \<open>generateID\<close> has not been called.
\<close>

theorem missing_metadata_fails:
  "(entityMeta (idp loginEntity) = None \<or> entityMeta (sp loginEntity) = None \<longrightarrow>
      loginRequestRedirectURL m loginEntity custom1 calls
        = (Inl (Error ''Missing declaration of metadata''), calls))
   \<and> (entityMeta (init entity) = None \<or> entityMeta (target entity) = None \<longrightarrow>
        logoutRequestRedirectURL m user entity relayState custom2 calls
          = (Inl (Error ''Missing declaration of metadata''), calls)
        \<and> logoutResponseRedirectURL m requestInfo entity relayState custom3 calls
          = (Inl (Error ''Missing declaration of metadata''), calls))"
proof (intro conjI impI)
  assume "entityMeta (idp loginEntity) = None \<or> entityMeta (sp loginEntity) = None"
  then show "loginRequestRedirectURL m loginEntity custom1 calls
               = (Inl (Error ''Missing declaration of metadata''), calls)"
    by (auto simp: loginRequestRedirectURL_def Let_def split: option.splits)
next
  assume "entityMeta (init entity) = None \<or> entityMeta (target entity) = None"
  then show "logoutRequestRedirectURL m user entity relayState custom2 calls
               = (Inl (Error ''Missing declaration of metadata''), calls)"
    by (auto simp: logoutRequestRedirectURL_def Let_def split: option.splits)
next
  assume "entityMeta (init entity) = None \<or> entityMeta (target entity) = None"
  then show "logoutResponseRedirectURL m requestInfo entity relayState custom3 calls
               = (Inl (Error ''Missing declaration of metadata''), calls)"
    by (auto simp: logoutResponseRedirectURL_def Let_def split: option.splits)
qed

text \<open>
  The three builders on example entities whose service provider, or target, has no
  metadata.
\<close>

theorem missing_metadata_fails_witness:
  "entityMeta (sp ((exampleLogin True)\<lparr>sp := \<lparr>entityMeta = None, entitySetting = exampleSetting\<rparr>\<rparr>))
     = None
   \<and> entityMeta (target ((exampleLogout True)\<lparr>target := \<lparr>entityMeta = None,
                                                       entitySetting = exampleSetting\<rparr>\<rparr>))
     = None
   \<and> loginRequestRedirectURL exampleModules
         ((exampleLogin True)\<lparr>sp := \<lparr>entityMeta = None, entitySetting = exampleSetting\<rparr>\<rparr>)
         None 0
       = (Inl (Error ''Missing declaration of metadata''), 0)
   \<and> logoutRequestRedirectURL exampleModules exampleUser
         ((exampleLogout True)\<lparr>target := \<lparr>entityMeta = None, entitySetting = exampleSetting\<rparr>\<rparr>)
         (Some ''deeplink123'') None 0
       = (Inl (Error ''Missing declaration of metadata''), 0)
   \<and> logoutResponseRedirectURL exampleModules None
         ((exampleLogout True)\<lparr>target := \<lparr>entityMeta = None, entitySetting = exampleSetting\<rparr>\<rparr>)
         (Some ''deeplink123'') None 0
       = (Inl (Error ''Missing declaration of metadata''), 0)"
proof -
  let ?login = "(exampleLogin True)\<lparr>sp := \<lparr>entityMeta = None, entitySetting = exampleSetting\<rparr>\<rparr>"
  let ?logout = "(exampleLogout True)\<lparr>target := \<lparr>entityMeta = None,
                                                  entitySetting = exampleSetting\<rparr>\<rparr>"
  have a: "entityMeta (sp ?login) = None" by simp
  have b: "entityMeta (target ?logout) = None" by simp
  note t = missing_metadata_fails [where loginEntity = ?login and entity = ?logout
             and m = exampleModules and user = exampleUser and calls = 0
             and relayState = "Some ''deeplink123''" and requestInfo = None
             and ?custom1.0 = None and ?custom2.0 = None and ?custom3.0 = None]
  have c: "loginRequestRedirectURL exampleModules ?login None 0
             = (Inl (Error ''Missing declaration of metadata''), 0)"
    using t [THEN conjunct1] a by simp
  have d: "logoutRequestRedirectURL exampleModules exampleUser ?logout (Some ''deeplink123'') None 0
             = (Inl (Error ''Missing declaration of metadata''), 0)"
    using t [THEN conjunct2] b by simp
  have e: "logoutResponseRedirectURL exampleModules None ?logout (Some ''deeplink123'') None 0
             = (Inl (Error ''Missing declaration of metadata''), 0)"
    using t [THEN conjunct2] b by simp
  show ?thesis by (intro conjI a b c d e)
qed

text \<open>
  C8, as amended. On the default-template path of the logout response, the raw XML is
  the default template with the tag values \<open>tvalue\<close> substituted. The test of line 192
  is on the extracted logout request, not on its identifier. When the request info
  carries an extracted logout request, \<open>tvalue\<close> holds the key \<open>InResponseTo\<close> once,
  with the \<open>id\<close> of that request: exactly the identifier, when it has one. When the
  request info, its extract or the extracted logout request is absent, \<open>tvalue\<close> has no
  key \<open>InResponseTo\<close> at all.
\<close>

theorem logout_response_InResponseTo:
  assumes "entityMeta (init entity) = Some metaInit"
    and "entityMeta (target entity) = Some metaTarget"
    and "customTemplate (logoutResponseTemplate (entitySetting (init entity))) = None"
  shows "logoutResponseRedirectURL m requestInfo entity relayState customTagReplacement calls =
           (case buildRedirectURL m (getSingleLogoutService metaTarget redirect)
                   urlParams_logoutResponse
                   (wantLogoutResponseSigned (entitySetting (target entity)))
                   (libsaml_replaceTagsByValue m (libsaml_defaultLogoutResponseTemplate m)
                      (tvalue m (generateID (entitySetting (init entity)) calls)
                         (getSingleLogoutService metaTarget redirect) metaInit requestInfo))
                   (entitySetting (init entity)) relayState of
              Inl e \<Rightarrow> (Inl e, Suc calls)
            | Inr url \<Rightarrow>
                (Inr \<lparr>id' = generateID (entitySetting (init entity)) calls, context' = url\<rparr>,
                 Suc calls))
         \<and> distinct (map fst (tvalue m ident base metaInit requestInfo))
         \<and> (\<forall>info ex req known.
                requestInfo = Some info \<and> extract' info = Some ex \<and> logoutrequest ex = Some req
                \<and> logoutrequest_id req = Some known
                \<longrightarrow> map_of (tvalue m ident base metaInit requestInfo) ''InResponseTo''
                      = Some (StringValue known))
         \<and> (\<forall>info ex req.
                requestInfo = Some info \<and> extract' info = Some ex \<and> logoutrequest ex = Some req
                \<longrightarrow> ''InResponseTo'' \<in> fst ` set (tvalue m ident base metaInit requestInfo))
         \<and> (\<not> (\<exists>info ex req.
                   requestInfo = Some info \<and> extract' info = Some ex \<and> logoutrequest ex = Some req)
              \<longrightarrow> ''InResponseTo'' \<notin> fst ` set (tvalue m ident base metaInit requestInfo))"
proof (intro conjI allI impI)
  show "logoutResponseRedirectURL m requestInfo entity relayState customTagReplacement calls =
           (case buildRedirectURL m (getSingleLogoutService metaTarget redirect)
                   urlParams_logoutResponse
                   (wantLogoutResponseSigned (entitySetting (target entity)))
                   (libsaml_replaceTagsByValue m (libsaml_defaultLogoutResponseTemplate m)
                      (tvalue m (generateID (entitySetting (init entity)) calls)
                         (getSingleLogoutService metaTarget redirect) metaInit requestInfo))
                   (entitySetting (init entity)) relayState of
              Inl e \<Rightarrow> (Inl e, Suc calls)
            | Inr url \<Rightarrow>
                (Inr \<lparr>id' = generateID (entitySetting (init entity)) calls, context' = url\<rparr>,
                 Suc calls))"
    by (rule logoutResponse_default [OF assms])
next
  show "distinct (map fst (tvalue m ident base metaInit requestInfo))"
    by (simp add: tvalue_def split: option.splits)
next
  fix info ex req known
  assume "requestInfo = Some info \<and> extract' info = Some ex \<and> logoutrequest ex = Some req
          \<and> logoutrequest_id req = Some known"
  then show "map_of (tvalue m ident base metaInit requestInfo) ''InResponseTo''
               = Some (StringValue known)"
    by (simp add: tvalue_def)
next
  fix info ex req
  assume "requestInfo = Some info \<and> extract' info = Some ex \<and> logoutrequest ex = Some req"
  then show "''InResponseTo'' \<in> fst ` set (tvalue m ident base metaInit requestInfo)"
    by (simp add: tvalue_def)
next
  assume "\<not> (\<exists>info ex req.
               requestInfo = Some info \<and> extract' info = Some ex \<and> logoutrequest ex = Some req)"
  then show "''InResponseTo'' \<notin> fst ` set (tvalue m ident base metaInit requestInfo)"
    by (auto simp: tvalue_def split: option.splits)
qed

text \<open>
  The example entities: a request with the identifier \<open>_abc123\<close>, whose response
  template receives it, and a request info without an extract.
\<close>

theorem logout_response_InResponseTo_witness:
  "entityMeta (init (exampleLogout False))
     = Some (exampleMeta ''https://sp.example/metadata'' ''https://sp.example/slo'' False)
   \<and> entityMeta (target (exampleLogout False))
     = Some (exampleMeta ''https://idp.example/metadata'' ''https://idp.example/slo'' False)
   \<and> customTemplate (logoutResponseTemplate (entitySetting (init (exampleLogout False)))) = None
   \<and> map_of (tvalue exampleModules ''_id'' ''https://idp.example/slo''
                (exampleMeta ''https://sp.example/metadata'' ''https://sp.example/slo'' False)
                (Some \<lparr>extract' = Some \<lparr>logoutrequest =
                                           Some \<lparr>logoutrequest_id = Some ''_abc123''\<rparr>\<rparr>\<rparr>))
         ''InResponseTo''
     = Some (StringValue ''_abc123'')
   \<and> ''InResponseTo'' \<notin> fst ` set (tvalue exampleModules ''_id'' ''https://idp.example/slo''
                (exampleMeta ''https://sp.example/metadata'' ''https://sp.example/slo'' False)
                (Some \<lparr>extract' = None\<rparr>))
   \<and> libsaml_replaceTagsByValue exampleModules
         (libsaml_defaultLogoutResponseTemplate exampleModules)
         (tvalue exampleModules ''_id'' ''https://idp.example/slo''
            (exampleMeta ''https://sp.example/metadata'' ''https://sp.example/slo'' False)
            (Some \<lparr>extract' = Some \<lparr>logoutrequest =
                                       Some \<lparr>logoutrequest_id = Some ''_abc123''\<rparr>\<rparr>\<rparr>))
     = ''<LogoutResponse ID=_id InResponseTo=_abc123>''"
proof -
  note a = example_entities(3) [of False] and b = example_entities(4) [of False]
  have c: "customTemplate (logoutResponseTemplate (entitySetting (init (exampleLogout False))))
             = None"
    by (simp add: example_entities example_templates)
  note t = logout_response_InResponseTo [OF a b c, where m = exampleModules
             and ident = "''_id''" and base = "''https://idp.example/slo''"]
  let ?known = "Some \<lparr>extract' = Some \<lparr>logoutrequest =
                                            Some \<lparr>logoutrequest_id = Some ''_abc123''\<rparr>\<rparr>\<rparr>"
  let ?unknown = "Some \<lparr>extract' = (None :: Extract option)\<rparr>"
  have d: "map_of (tvalue exampleModules ''_id'' ''https://idp.example/slo''
                (exampleMeta ''https://sp.example/metadata'' ''https://sp.example/slo'' False)
                ?known) ''InResponseTo''
     = Some (StringValue ''_abc123'')"
    using t [where requestInfo = ?known, THEN conjunct2, THEN conjunct2, THEN conjunct1]
    by simp
  have e: "''InResponseTo'' \<notin> fst ` set (tvalue exampleModules ''_id'' ''https://idp.example/slo''
                (exampleMeta ''https://sp.example/metadata'' ''https://sp.example/slo'' False)
                ?unknown)"
    using t [where requestInfo = ?unknown, THEN conjunct2, THEN conjunct2, THEN conjunct2,
             THEN conjunct2]
    by simp
  have f: "libsaml_replaceTagsByValue exampleModules
         (libsaml_defaultLogoutResponseTemplate exampleModules)
         (tvalue exampleModules ''_id'' ''https://idp.example/slo''
            (exampleMeta ''https://sp.example/metadata'' ''https://sp.example/slo'' False)
            ?known)
     = ''<LogoutResponse ID=_id InResponseTo=_abc123>''"
    by code_simp
  show ?thesis by (intro conjI a b c d e f)
qed

text \<open>
  C8, as stated, fails for a request info whose extracted logout request has no
  \<open>id\<close>: no identifier is available, and yet the key \<open>InResponseTo\<close> is handed to the
  template substitution, with the value \<open>undefined\<close>, which the example substitution
  writes into the logout response.
\<close>

theorem logout_response_InResponseTo_counterexample:
  "logoutrequest_id \<lparr>logoutrequest_id = None\<rparr> = None
   \<and> ''InResponseTo'' \<in> fst ` set (tvalue exampleModules ''_id'' ''https://idp.example/slo''
        (exampleMeta ''https://sp.example/metadata'' ''https://sp.example/slo'' False)
        (Some \<lparr>extract' = Some \<lparr>logoutrequest = Some \<lparr>logoutrequest_id = None\<rparr>\<rparr>\<rparr>))
   \<and> map_of (tvalue exampleModules ''_id'' ''https://idp.example/slo''
        (exampleMeta ''https://sp.example/metadata'' ''https://sp.example/slo'' False)
        (Some \<lparr>extract' = Some \<lparr>logoutrequest = Some \<lparr>logoutrequest_id = None\<rparr>\<rparr>\<rparr>))
        ''InResponseTo''
     = Some UndefinedValue
   \<and> libsaml_replaceTagsByValue exampleModules
         (libsaml_defaultLogoutResponseTemplate exampleModules)
         (tvalue exampleModules ''_id'' ''https://idp.example/slo''
            (exampleMeta ''https://sp.example/metadata'' ''https://sp.example/slo'' False)
            (Some \<lparr>extract' = Some \<lparr>logoutrequest = Some \<lparr>logoutrequest_id = None\<rparr>\<rparr>\<rparr>))
     = ''<LogoutResponse ID=_id InResponseTo=undefined>''
   \<and> fst (logoutResponseRedirectURL exampleModules
        (Some \<lparr>extract' = Some \<lparr>logoutrequest = Some \<lparr>logoutrequest_id = None\<rparr>\<rparr>\<rparr>)
        (exampleLogout False) None None 0)
     = Inr \<lparr>id' = ''_id'',
            context' = ''https://idp.example/slo?SAMLResponse=AS4A0f88TG9nb3V0UmVzcG9uc2UgSUQ9X2lkIEluUmVzcG9uc2VUbz11bmRlZmluZWQ%2B''\<rparr>"
proof -
  have xml: "libsaml_replaceTagsByValue exampleModules
         (libsaml_defaultLogoutResponseTemplate exampleModules)
         (tvalue exampleModules ''_id'' ''https://idp.example/slo''
            (exampleMeta ''https://sp.example/metadata'' ''https://sp.example/slo'' False)
            (Some \<lparr>extract' = Some \<lparr>logoutrequest = Some \<lparr>logoutrequest_id = None\<rparr>\<rparr>\<rparr>))
     = ''<LogoutResponse ID=_id InResponseTo=undefined>''"
    by code_simp
  show ?thesis
    unfolding xml
    by (simp add: tvalue_def example_logoutResponse_without_id)
qed

text \<open>
  C9. On the default-template path of each of the three builders, one identifier is
  generated, by the one call of \<open>generateID\<close>: it is the value of the key \<open>ID\<close> in the
  tag values substituted into the default template, whose result is the raw XML handed to
  the encoder, and it is the \<open>id\<close> of the message context returned.
\<close>

theorem default_template_id:
  "(entityMeta (idp loginEntity) = Some metaIdp \<and> entityMeta (sp loginEntity) = Some metaSp
    \<and> customTemplate (loginRequestTemplate (entitySetting (sp loginEntity))) = None
    \<longrightarrow>
      (let ident = generateID (entitySetting (sp loginEntity)) calls;
           tags = loginRequestTagValues m ident (getSingleSignOnService metaIdp redirect) metaSp
                    (entitySetting (sp loginEntity))
       in map_of tags ''ID'' = Some (StringValue ident)
          \<and> loginRequestRedirectURL m loginEntity custom1 calls =
               (case buildRedirectURL m (getSingleSignOnService metaIdp redirect)
                       urlParams_samlRequest (isAuthnRequestSigned metaSp)
                       (libsaml_replaceTagsByValue m (libsaml_defaultLoginRequestTemplate m) tags)
                       (entitySetting (sp loginEntity)) None of
                  Inl e \<Rightarrow> (Inl e, Suc calls)
                | Inr url \<Rightarrow> (Inr \<lparr>id' = ident, context' = url\<rparr>, Suc calls))))
   \<and> (entityMeta (init entity) = Some metaInit \<and> entityMeta (target entity) = Some metaTarget
      \<and> customTemplate (logoutRequestTemplate (entitySetting (init entity))) = None
      \<longrightarrow>
        (let ident = generateID (entitySetting (init entity)) calls;
             tags = logoutRequestTagValues m ident (getSingleLogoutService metaTarget redirect)
                      metaInit (entitySetting (init entity)) user
         in map_of tags ''ID'' = Some (StringValue ident)
            \<and> logoutRequestRedirectURL m user entity relayState custom2 calls =
                 (case buildRedirectURL m (getSingleLogoutService metaTarget redirect)
                         urlParams_logoutRequest
                         (wantLogoutRequestSigned (entitySetting (target entity)))
                         (libsaml_replaceTagsByValue m (libsaml_defaultLogoutRequestTemplate m)
                            tags)
                         (entitySetting (init entity)) relayState of
                    Inl e \<Rightarrow> (Inl e, Suc calls)
                  | Inr url \<Rightarrow> (Inr \<lparr>id' = ident, context' = url\<rparr>, Suc calls))))
   \<and> (entityMeta (init entity) = Some metaInit \<and> entityMeta (target entity) = Some metaTarget
      \<and> customTemplate (logoutResponseTemplate (entitySetting (init entity))) = None
      \<longrightarrow>
        (let ident = generateID (entitySetting (init entity)) calls;
             tags = tvalue m ident (getSingleLogoutService metaTarget redirect) metaInit
                      requestInfo
         in map_of tags ''ID'' = Some (StringValue ident)
            \<and> logoutResponseRedirectURL m requestInfo entity relayState custom3 calls =
                 (case buildRedirectURL m (getSingleLogoutService metaTarget redirect)
                         urlParams_logoutResponse
                         (wantLogoutResponseSigned (entitySetting (target entity)))
                         (libsaml_replaceTagsByValue m (libsaml_defaultLogoutResponseTemplate m)
                            tags)
                         (entitySetting (init entity)) relayState of
                    Inl e \<Rightarrow> (Inl e, Suc calls)
                  | Inr url \<Rightarrow> (Inr \<lparr>id' = ident, context' = url\<rparr>, Suc calls))))"
proof (intro conjI impI)
  assume "entityMeta (idp loginEntity) = Some metaIdp \<and> entityMeta (sp loginEntity) = Some metaSp
          \<and> customTemplate (loginRequestTemplate (entitySetting (sp loginEntity))) = None"
  then have a: "entityMeta (idp loginEntity) = Some metaIdp"
    and b: "entityMeta (sp loginEntity) = Some metaSp"
    and c: "customTemplate (loginRequestTemplate (entitySetting (sp loginEntity))) = None"
    by simp_all
  show "let ident = generateID (entitySetting (sp loginEntity)) calls;
            tags = loginRequestTagValues m ident (getSingleSignOnService metaIdp redirect) metaSp
                     (entitySetting (sp loginEntity))
        in map_of tags ''ID'' = Some (StringValue ident)
           \<and> loginRequestRedirectURL m loginEntity custom1 calls =
                (case buildRedirectURL m (getSingleSignOnService metaIdp redirect)
                        urlParams_samlRequest (isAuthnRequestSigned metaSp)
                        (libsaml_replaceTagsByValue m (libsaml_defaultLoginRequestTemplate m) tags)
                        (entitySetting (sp loginEntity)) None of
                   Inl e \<Rightarrow> (Inl e, Suc calls)
                 | Inr url \<Rightarrow> (Inr \<lparr>id' = ident, context' = url\<rparr>, Suc calls))"
    unfolding Let_def
    by (intro conjI loginRequest_default [OF a b c]) (simp add: loginRequestTagValues_def)
next
  assume "entityMeta (init entity) = Some metaInit \<and> entityMeta (target entity) = Some metaTarget
          \<and> customTemplate (logoutRequestTemplate (entitySetting (init entity))) = None"
  then have a: "entityMeta (init entity) = Some metaInit"
    and b: "entityMeta (target entity) = Some metaTarget"
    and c: "customTemplate (logoutRequestTemplate (entitySetting (init entity))) = None"
    by simp_all
  show "let ident = generateID (entitySetting (init entity)) calls;
            tags = logoutRequestTagValues m ident (getSingleLogoutService metaTarget redirect)
                     metaInit (entitySetting (init entity)) user
        in map_of tags ''ID'' = Some (StringValue ident)
           \<and> logoutRequestRedirectURL m user entity relayState custom2 calls =
                (case buildRedirectURL m (getSingleLogoutService metaTarget redirect)
                        urlParams_logoutRequest
                        (wantLogoutRequestSigned (entitySetting (target entity)))
                        (libsaml_replaceTagsByValue m (libsaml_defaultLogoutRequestTemplate m)
                           tags)
                        (entitySetting (init entity)) relayState of
                   Inl e \<Rightarrow> (Inl e, Suc calls)
                 | Inr url \<Rightarrow> (Inr \<lparr>id' = ident, context' = url\<rparr>, Suc calls))"
    unfolding Let_def
    by (intro conjI logoutRequest_default [OF a b c]) (simp add: logoutRequestTagValues_def)
next
  assume "entityMeta (init entity) = Some metaInit \<and> entityMeta (target entity) = Some metaTarget
          \<and> customTemplate (logoutResponseTemplate (entitySetting (init entity))) = None"
  then have a: "entityMeta (init entity) = Some metaInit"
    and b: "entityMeta (target entity) = Some metaTarget"
    and c: "customTemplate (logoutResponseTemplate (entitySetting (init entity))) = None"
    by simp_all
  show "let ident = generateID (entitySetting (init entity)) calls;
            tags = tvalue m ident (getSingleLogoutService metaTarget redirect) metaInit
                     requestInfo
        in map_of tags ''ID'' = Some (StringValue ident)
           \<and> logoutResponseRedirectURL m requestInfo entity relayState custom3 calls =
                (case buildRedirectURL m (getSingleLogoutService metaTarget redirect)
                        urlParams_logoutResponse
                        (wantLogoutResponseSigned (entitySetting (target entity)))
                        (libsaml_replaceTagsByValue m (libsaml_defaultLogoutResponseTemplate m)
                           tags)
                        (entitySetting (init entity)) relayState of
                   Inl e \<Rightarrow> (Inl e, Suc calls)
                 | Inr url \<Rightarrow> (Inr \<lparr>id' = ident, context' = url\<rparr>, Suc calls))"
    unfolding Let_def
    by (intro conjI logoutResponse_default [OF a b c]) (simp add: tvalue_def)
qed

text \<open>
  The example entities, which have no custom template: the generated identifier
  \<open>_id\<close> is the \<open>ID\<close> tag of each default message and the identifier returned.
\<close>

theorem default_template_id_witness:
  "customTemplate (loginRequestTemplate (entitySetting (sp (exampleLogin True)))) = None
   \<and> customTemplate (logoutRequestTemplate (entitySetting (init (exampleLogout True)))) = None
   \<and> customTemplate (logoutResponseTemplate (entitySetting (init (exampleLogout True)))) = None
   \<and> generateID exampleSetting 0 = ''_id''
   \<and> map_of (loginRequestTagValues exampleModules ''_id'' ''https://idp.example/sso''
                (exampleMeta ''https://sp.example/metadata'' ''https://sp.example/acs'' True)
                exampleSetting) ''ID''
       = Some (StringValue ''_id'')
   \<and> id' (projr (fst (loginRequestRedirectURL exampleModules (exampleLogin True) None 0)))
       = ''_id''
   \<and> map_of (logoutRequestTagValues exampleModules ''_id'' ''https://idp.example/slo''
                (exampleMeta ''https://sp.example/metadata'' ''https://sp.example/slo'' False)
                exampleSetting exampleUser) ''ID''
       = Some (StringValue ''_id'')
   \<and> id' (projr (fst (logoutRequestRedirectURL exampleModules exampleUser (exampleLogout True)
                         (Some ''deeplink123'') None 0)))
       = ''_id''
   \<and> map_of (tvalue exampleModules ''_id'' ''https://idp.example/slo''
                (exampleMeta ''https://sp.example/metadata'' ''https://sp.example/slo'' False)
                None) ''ID''
       = Some (StringValue ''_id'')"
proof -
  have c1: "customTemplate (loginRequestTemplate (entitySetting (sp (exampleLogin True)))) = None"
    and c2: "customTemplate (logoutRequestTemplate (entitySetting (init (exampleLogout True)))) = None"
    and c3: "customTemplate (logoutResponseTemplate (entitySetting (init (exampleLogout True)))) = None"
    by (simp_all add: example_entities example_templates)
  note g = example_templates(4)
  note t = default_template_id [where loginEntity = "exampleLogin True"
             and entity = "exampleLogout True" and m = exampleModules and calls = 0
             and user = exampleUser and requestInfo = None
             and metaIdp = "exampleMeta ''https://idp.example/metadata'' ''https://idp.example/sso'' False"
             and metaSp = "exampleMeta ''https://sp.example/metadata'' ''https://sp.example/acs'' True"
             and metaInit = "exampleMeta ''https://sp.example/metadata'' ''https://sp.example/slo'' False"
             and metaTarget = "exampleMeta ''https://idp.example/metadata'' ''https://idp.example/slo'' False"]
  have login: "map_of (loginRequestTagValues exampleModules ''_id'' ''https://idp.example/sso''
                (exampleMeta ''https://sp.example/metadata'' ''https://sp.example/acs'' True)
                exampleSetting) ''ID''
       = Some (StringValue ''_id'')"
    using t [THEN conjunct1] c1
    by (simp add: example_entities example_endpoints g Let_def)
  have request: "map_of (logoutRequestTagValues exampleModules ''_id'' ''https://idp.example/slo''
                (exampleMeta ''https://sp.example/metadata'' ''https://sp.example/slo'' False)
                exampleSetting exampleUser) ''ID''
       = Some (StringValue ''_id'')"
    using t [THEN conjunct2, THEN conjunct1] c2
    by (simp add: example_entities example_endpoints g Let_def)
  have response: "map_of (tvalue exampleModules ''_id'' ''https://idp.example/slo''
                (exampleMeta ''https://sp.example/metadata'' ''https://sp.example/slo'' False)
                None) ''ID''
       = Some (StringValue ''_id'')"
    using t [THEN conjunct2, THEN conjunct2] c3
    by (simp add: example_entities example_endpoints g Let_def)
  have id1: "id' (projr (fst (loginRequestRedirectURL exampleModules (exampleLogin True) None 0)))
               = ''_id''"
    by (simp add: example_loginRequest_signed)
  have id2: "id' (projr (fst (logoutRequestRedirectURL exampleModules exampleUser
                                (exampleLogout True) (Some ''deeplink123'') None 0)))
               = ''_id''"
    by (simp add: example_logoutRequest_signed)
  show ?thesis by (intro conjI c1 c2 c3 g login id1 request id2 response)
qed

text \<open>
  C10. The login builder takes no relay state and hands none to the encoder: whenever it
  reaches the encoder, the relay state argument is absent. A login request that is built
  has the appended parameters \<open>SAMLRequest\<close>, and \<open>SigAlg\<close> and \<open>Signature\<close> when
  signed, never \<open>RelayState\<close>; the signing input of a signed login request is the
  query of \<open>SAMLRequest\<close> and \<open>SigAlg\<close> alone.
\<close>

theorem login_never_relayState:
  assumes "entityMeta (idp entity) = Some metaIdp" and "entityMeta (sp entity) = Some metaSp"
  shows "(\<forall>result.
            fst (loginRequestRedirectURL m entity customTagReplacement calls) = Inr result
            \<longrightarrow> paramNames (appended (getSingleSignOnService metaIdp redirect) (context' result))
                  = ''SAMLRequest''
                    # (if isAuthnRequestSigned metaSp then [''SigAlg'', ''Signature''] else [])
                \<and> ''RelayState'' \<notin> set (paramNames (appended
                                               (getSingleSignOnService metaIdp redirect)
                                               (context' result))))
         \<and> (loginRequestRedirectURL m entity customTagReplacement calls
               = (Inl (TypeError ''customTagReplacement is not a function''), calls)
             \<or> (\<exists>ident rawXml calls'.
                   loginRequestRedirectURL m entity customTagReplacement calls =
                     (case buildRedirectURL m (getSingleSignOnService metaIdp redirect)
                             urlParams_samlRequest (isAuthnRequestSigned metaSp) rawXml
                             (entitySetting (sp entity)) None of
                        Inl e \<Rightarrow> (Inl e, calls')
                      | Inr url \<Rightarrow> (Inr \<lparr>id' = ident, context' = url\<rparr>, calls'))))
         \<and> (\<forall>rawXml.
               buildRedirectURL m (getSingleSignOnService metaIdp redirect) urlParams_samlRequest
                 True rawXml (entitySetting (sp entity)) None =
                 (case url_parse_query m (getSingleSignOnService metaIdp redirect) of
                    Inl e \<Rightarrow> Inl e
                  | Inr parsed \<Rightarrow>
                 (let sep = (case parsed of Some (c # q) \<Rightarrow> CHR ''&'' | _ \<Rightarrow> CHR ''?'');
                      signed =
                        [(''SAMLRequest'',
                          encodeURIComponent
                            (utility_base64Encode m (utility_deflateString m rawXml))),
                         (''SigAlg'',
                          encodeURIComponent
                            (requestSignatureAlgorithm (entitySetting (sp entity))))]
                  in case libsaml_constructMessageSignature m (query signed)
                            (privateKey (entitySetting (sp entity)))
                            (privateKeyPass (entitySetting (sp entity))) None
                            (requestSignatureAlgorithm (entitySetting (sp entity))) of
                       Inl e \<Rightarrow> Inl e
                     | Inr sig \<Rightarrow>
                         Inr (getSingleSignOnService metaIdp redirect @ sep
                              # query (signed @ [(''Signature'', encodeURIComponent sig)]))))
               \<and> paramNames
                   (query [(''SAMLRequest'',
                            encodeURIComponent
                              (utility_base64Encode m (utility_deflateString m rawXml))),
                           (''SigAlg'',
                            encodeURIComponent
                              (requestSignatureAlgorithm (entitySetting (sp entity))))])
                 = [''SAMLRequest'', ''SigAlg''])"
proof (intro conjI allI impI)
  have p: "getQueryParamByType urlParams_samlRequest = Inr ''SAMLRequest''"
    by (simp add: getQueryParamByType_def)
  {
    fix result
    assume ok: "fst (loginRequestRedirectURL m entity customTagReplacement calls) = Inr result"
    from assms ok obtain rawXml where built:
      "buildRedirectURL m (getSingleSignOnService metaIdp redirect) urlParams_samlRequest
         (isAuthnRequestSigned metaSp) rawXml (entitySetting (sp entity)) None
       = Inr (context' result)"
      by (rule loginRequest_encoder)
    from paramNames_appended(1) [OF built p]
    show names: "paramNames (appended (getSingleSignOnService metaIdp redirect) (context' result))
            = ''SAMLRequest''
              # (if isAuthnRequestSigned metaSp then [''SigAlg'', ''Signature''] else [])"
      by simp
    show "''RelayState'' \<notin> set (paramNames (appended (getSingleSignOnService metaIdp redirect)
                                          (context' result)))"
      unfolding names by simp
  }
  show "loginRequestRedirectURL m entity customTagReplacement calls
          = (Inl (TypeError ''customTagReplacement is not a function''), calls)
        \<or> (\<exists>ident rawXml calls'.
              loginRequestRedirectURL m entity customTagReplacement calls =
                (case buildRedirectURL m (getSingleSignOnService metaIdp redirect)
                        urlParams_samlRequest (isAuthnRequestSigned metaSp) rawXml
                        (entitySetting (sp entity)) None of
                   Inl e \<Rightarrow> (Inl e, calls')
                 | Inr url \<Rightarrow> (Inr \<lparr>id' = ident, context' = url\<rparr>, calls')))"
  proof (cases "customTemplate (loginRequestTemplate (entitySetting (sp entity)))")
    case None
    show ?thesis
      by (intro disjI2 exI) (rule loginRequest_default [OF assms None])
  next
    case (Some template)
    show ?thesis
    proof (cases customTagReplacement)
      case None
      show ?thesis
        unfolding None by (intro disjI1) (rule loginRequest_custom(1) [OF assms Some])
    next
      case f: (Some f)
      show ?thesis
        unfolding f by (intro disjI2 exI) (rule loginRequest_custom(2) [OF assms Some])
    qed
  qed
  {
    fix rawXml
    show "buildRedirectURL m (getSingleSignOnService metaIdp redirect) urlParams_samlRequest
            True rawXml (entitySetting (sp entity)) None =
            (case url_parse_query m (getSingleSignOnService metaIdp redirect) of
               Inl e \<Rightarrow> Inl e
             | Inr parsed \<Rightarrow>
            (let sep = (case parsed of Some (c # q) \<Rightarrow> CHR ''&'' | _ \<Rightarrow> CHR ''?'');
                 signed =
                   [(''SAMLRequest'',
                     encodeURIComponent
                       (utility_base64Encode m (utility_deflateString m rawXml))),
                    (''SigAlg'',
                     encodeURIComponent
                       (requestSignatureAlgorithm (entitySetting (sp entity))))]
             in case libsaml_constructMessageSignature m (query signed)
                       (privateKey (entitySetting (sp entity)))
                       (privateKeyPass (entitySetting (sp entity))) None
                       (requestSignatureAlgorithm (entitySetting (sp entity))) of
                  Inl e \<Rightarrow> Inl e
                | Inr sig \<Rightarrow>
                    Inr (getSingleSignOnService metaIdp redirect @ sep
                         # query (signed @ [(''Signature'', encodeURIComponent sig)]))))"
    proof (cases "url_parse_query m (getSingleSignOnService metaIdp redirect)")
      case (Inl e)
      then show ?thesis by (simp add: buildRedirectURL_raises)
    next
      case parse: (Inr parsed)
      show ?thesis
        unfolding buildRedirectURL_query [OF p parse] parse Let_def
        by (simp split: sum.splits)
    qed
    show "paramNames
            (query [(''SAMLRequest'',
                     encodeURIComponent
                       (utility_base64Encode m (utility_deflateString m rawXml))),
                    (''SigAlg'',
                     encodeURIComponent
                       (requestSignatureAlgorithm (entitySetting (sp entity))))])
          = [''SAMLRequest'', ''SigAlg'']"
      using paramNames_signing_input [OF p, of _ _ None] by simp
  }
qed

text \<open>
  The signed login request of the example entities.
\<close>

theorem login_never_relayState_witness:
  "entityMeta (idp (exampleLogin True))
     = Some (exampleMeta ''https://idp.example/metadata'' ''https://idp.example/sso'' False)
   \<and> entityMeta (sp (exampleLogin True))
     = Some (exampleMeta ''https://sp.example/metadata'' ''https://sp.example/acs'' True)
   \<and> fst (loginRequestRedirectURL exampleModules (exampleLogin True) None 0)
     = Inr \<lparr>id' = ''_id'',
            context' = ''https://idp.example/sso?SAMLRequest=ATkAxv88QXV0aG5SZXF1ZXN0IElEPV9pZCBEZXN0aW5hdGlvbj1odHRwczovL2lkcC5leGFtcGxlL3Nzbz4%3D&SigAlg=http%3A%2F%2Fwww.w3.org%2F2001%2F04%2Fxmldsig-more%23rsa-sha256&Signature=c2ln%2B%2F8%3D''\<rparr>
   \<and> ''RelayState'' \<notin> set (paramNames (appended ''https://idp.example/sso''
         ''https://idp.example/sso?SAMLRequest=ATkAxv88QXV0aG5SZXF1ZXN0IElEPV9pZCBEZXN0aW5hdGlvbj1odHRwczovL2lkcC5leGFtcGxlL3Nzbz4%3D&SigAlg=http%3A%2F%2Fwww.w3.org%2F2001%2F04%2Fxmldsig-more%23rsa-sha256&Signature=c2ln%2B%2F8%3D''))"
proof -
  note a = example_entities(1) [of True] and b = example_entities(2) [of True]
  have c: "fst (loginRequestRedirectURL exampleModules (exampleLogin True) None 0)
     = Inr \<lparr>id' = ''_id'',
            context' = ''https://idp.example/sso?SAMLRequest=ATkAxv88QXV0aG5SZXF1ZXN0IElEPV9pZCBEZXN0aW5hdGlvbj1odHRwczovL2lkcC5leGFtcGxlL3Nzbz4%3D&SigAlg=http%3A%2F%2Fwww.w3.org%2F2001%2F04%2Fxmldsig-more%23rsa-sha256&Signature=c2ln%2B%2F8%3D''\<rparr>"
    by (simp only: example_loginRequest_signed fst_conv)
  have d: "''RelayState'' \<notin> set (paramNames (appended ''https://idp.example/sso''
         ''https://idp.example/sso?SAMLRequest=ATkAxv88QXV0aG5SZXF1ZXN0IElEPV9pZCBEZXN0aW5hdGlvbj1odHRwczovL2lkcC5leGFtcGxlL3Nzbz4%3D&SigAlg=http%3A%2F%2Fwww.w3.org%2F2001%2F04%2Fxmldsig-more%23rsa-sha256&Signature=c2ln%2B%2F8%3D''))"
    using login_never_relayState [OF a b, where m = exampleModules
            and customTagReplacement = None and calls = 0,
            THEN conjunct1, rule_format, OF c, THEN conjunct2]
    by (simp add: example_endpoints)
  show ?thesis by (intro conjI a b c d)
qed

end
